theory Spec2Isabelle
  imports Main
begin

section \<open>JavaScript values, as far as the callback reads them\<close>

text \<open>
  The payloads the callback reads (the stored session snapshot and the profile
  responses) are parsed JSON. They are modelled as trees of \<open>undefined\<close>, \<open>null\<close>,
  booleans, strings and objects; an object is the list of its own properties.
  Numbers and arrays are left out: none of the fields the code reads holds one.
  A string is a list of bytes (UTF-8).
\<close>

datatype jsval =
    JUndefined
  | JNull
  | JBool bool
  | JStr string
  | JObj "(string \<times> jsval) list"

text \<open>
  What a \<open>try\<close> block can catch: \<open>Error m\<close> is \<open>throw new Error(m)\<close> of the source,
  \<open>Thrown m\<close> is a value with \<open>message\<close> m that a collaborator rejected with or
  reported, and the last three are raised by the engine (a property read on
  \<open>null\<close>/\<open>undefined\<close> or a failed string conversion, \<open>JSON.parse\<close>,
  \<open>Date.prototype.toISOString\<close>).
\<close>

datatype error =
    Error string
  | Thrown string
  | TypeError
  | SyntaxError
  | RangeError

text \<open>Truthiness, as \<open>if (v)\<close>, \<open>!v\<close> and \<open>a || b\<close> test it.\<close>

fun truthy :: "jsval \<Rightarrow> bool" where
  "truthy JUndefined = False"
| "truthy JNull = False"
| "truthy (JBool b) = b"
| "truthy (JStr s) = (s \<noteq> [])"
| "truthy (JObj kvs) = True"

definition js_or :: "jsval \<Rightarrow> jsval \<Rightarrow> jsval" where
  "js_or a b = (if truthy a then a else b)"

text \<open>
  A value of type \<open>string | null\<close> (\<open>URLSearchParams.get\<close>, \<open>Storage.getItem\<close>) is a
  \<open>string option\<close>; it is truthy when it is a non-empty string.
\<close>

definition truthy_str :: "string option \<Rightarrow> bool" where
  "truthy_str v = (case v of None \<Rightarrow> False | Some s \<Rightarrow> s \<noteq> [])"

text \<open>\<open>v || null\<close> for an optional string: the empty string becomes \<open>null\<close> too.\<close>

definition or_null :: "string option \<Rightarrow> string option" where
  "or_null v = (if truthy_str v then v else None)"

text \<open>\<open>a || b\<close> on optional strings, and the string an optional string converts to.\<close>

definition or_str :: "string option \<Rightarrow> string option \<Rightarrow> string option" where
  "or_str a b = (if truthy_str a then a else b)"

definition str_of :: "string option \<Rightarrow> string" where
  "str_of v = (case v of None \<Rightarrow> ''null'' | Some s \<Rightarrow> s)"

text \<open>
  The property read \<open>v.k\<close>. On \<open>undefined\<close> and \<open>null\<close> it raises a TypeError, on an
  object it yields the own property or \<open>undefined\<close>, on a boolean or a string
  \<open>undefined\<close> (the names the code reads are not properties of their prototypes).
\<close>

fun get_prop :: "jsval \<Rightarrow> string \<Rightarrow> error + jsval" where
  "get_prop JUndefined k = Inl TypeError"
| "get_prop JNull k = Inl TypeError"
| "get_prop (JObj kvs) k = Inr (case map_of kvs k of None \<Rightarrow> JUndefined | Some v \<Rightarrow> v)"
| "get_prop (JBool b) k = Inr JUndefined"
| "get_prop (JStr s) k = Inr JUndefined"

text \<open>
  The string conversion inside a template literal. A parsed object has no
  callable \<open>toString\<close> of its own: it prints as \<open>[object Object]\<close> through the
  inherited one, and raises a TypeError when an own property shadows that.
\<close>

fun template :: "jsval \<Rightarrow> error + string" where
  "template JUndefined = Inr ''undefined''"
| "template JNull = Inr ''null''"
| "template (JBool b) = Inr (if b then ''true'' else ''false'')"
| "template (JStr s) = Inr s"
| "template (JObj kvs) =
     (if map_of kvs ''toString'' = None then Inr ''[object Object]'' else Inl TypeError)"

section \<open>The redirect URL\<close>

text \<open>\<open>s.split(c)\<close> for a one-character separator: never empty, \<open>''''.split(c) = ['''']\<close>.\<close>

fun split_on :: "char \<Rightarrow> string \<Rightarrow> string list" where
  "split_on c [] = [[]]"
| "split_on c (x # xs) =
     (if x = c then [] # split_on c xs
      else (case split_on c xs of
              [] \<Rightarrow> [[x]]
            | p # ps \<Rightarrow> (x # p) # ps))"

text \<open>
  \<open>new URLSearchParams(search)\<close>, the browser's form-urlencoded parser: one leading
  \<open>?\<close> is dropped, the rest is cut at \<open>&\<close>, empty pieces are skipped, each piece
  is cut at its first \<open>=\<close>, and in name and value \<open>+\<close> becomes a space and
  \<open>%XY\<close> the byte XY. (The browser then decodes the bytes as UTF-8; the model
  keeps the bytes.)
\<close>

definition hex_digit :: "char \<Rightarrow> nat option" where
  "hex_digit c =
     (let n = of_char c :: nat in
      if 48 \<le> n \<and> n \<le> 57 then Some (n - 48)
      else if 65 \<le> n \<and> n \<le> 70 then Some (n - 55)
      else if 97 \<le> n \<and> n \<le> 102 then Some (n - 87)
      else None)"

fun percent_decode :: "string \<Rightarrow> string" where
  "percent_decode (c # h # l # rest) =
     (if c = CHR ''%'' then
        (case (hex_digit h, hex_digit l) of
           (Some a, Some b) \<Rightarrow> char_of (16 * a + b) # percent_decode rest
         | _ \<Rightarrow> c # percent_decode (h # l # rest))
      else c # percent_decode (h # l # rest))"
| "percent_decode cs = cs"

definition form_decode :: "string \<Rightarrow> string" where
  "form_decode s = percent_decode (map (\<lambda>c. if c = CHR ''+'' then CHR '' '' else c) s)"

definition parse_pair :: "string \<Rightarrow> string \<times> string" where
  "parse_pair piece =
     (form_decode (takeWhile (\<lambda>c. c \<noteq> CHR ''='') piece),
      form_decode (drop 1 (dropWhile (\<lambda>c. c \<noteq> CHR ''='') piece)))"

definition URLSearchParams :: "string \<Rightarrow> (string \<times> string) list" where
  "URLSearchParams search =
     (let q = (case search of c # cs \<Rightarrow> (if c = CHR ''?'' then cs else search) | [] \<Rightarrow> [])
      in map parse_pair (filter (\<lambda>piece. piece \<noteq> []) (split_on CHR ''&'' q)))"

text \<open>\<open>urlParams.get(k)\<close>: the value of the first pair named k, or \<open>null\<close>.\<close>

definition get_param :: "(string \<times> string) list \<Rightarrow> string \<Rightarrow> string option" where
  "get_param urlParams k = map_of urlParams k"

section \<open>Data model\<close>

text \<open>The authenticated user and the session of the backend's auth client.\<close>

record auth_user =
  uid :: string

record session =
  session_user :: auth_user

text \<open>
  What \<open>supabase.auth.setSession\<close> resolves to: \<open>{ data: { user, session }, error }\<close>.
\<close>

record set_session_result =
  data_user :: "auth_user option"
  data_session :: "session option"
  session_error :: bool

text \<open>
  Modelled from the spec: TokenData, the result of \<open>exchangeCodeForToken\<close> (declared in
  \<open>services/oauth\<close>): \<open>{access_token, refresh_token?, expires_in?}\<close>, with
  \<open>expires_in\<close> in whole seconds.
\<close>

record token_data =
  access_token :: string
  refresh_token :: "string option"
  expires_in :: "int option"

text \<open>The value \<open>fetchAccountInfo\<close> returns: \<open>{ name, handle }\<close>.\<close>

record account_info =
  name :: jsval
  handle :: jsval

text \<open>
  An instant as \<open>toISOString\<close> prints it. The model keeps the milliseconds since the
  epoch instead of the text.
\<close>

datatype iso_time = ISO int

text \<open>
  A row of the table \<open>social_accounts\<close>. \<open>row_id\<close> is the primary key \<open>id\<close>.
  \<open>account_name\<close> and \<open>account_handle\<close> are text columns: they hold the text the
  table keeps for the value the client sent, or \<open>None\<close> for NULL. \<open>updated_at\<close> is
  \<open>None\<close> while the client has not sent one (the insert of the handle-aware
  handler leaves it to the table).
\<close>

record social_account =
  row_id :: nat
  user_id :: string
  platform :: string
  account_name :: "string option"
  account_handle :: "string option"
  access_token :: string
  refresh_token :: "string option"
  token_expires_at :: "iso_time option"
  is_connected :: bool
  updated_at :: "iso_time option"

datatype ui_status = loading | success | error

text \<open>
  Every call that leaves the page, in the order it is made: to the auth client, the
  token endpoint, a platform API, the table, browser storage (writes and
  removals), timers and the window. Console output is not modelled.
\<close>

datatype event =
    GetSession
  | SetSession jsval
  | ExchangeCode string string string
  | Fetch string "(string \<times> string) list"
  | DbSelect string string string
  | DbUpdate nat
  | DbInsert
  | DbUpsert string string
  | LocalRemove string
  | LocalSet string
  | SessionRemove string
  | SetTimeout nat
  | PostMessage string string string
  | WindowClose
  | Navigate string

text \<open>
  The state the callback reads and writes: the two browser stores, the table, the
  component's \<open>status\<close> and \<open>message\<close>, the calls made so far, the number of clock
  readings so far, and the pending timeouts (delay in ms, platform captured by the
  closure).
\<close>

record world =
  localStorage :: "string \<Rightarrow> string option"
  sessionStorage :: "string \<Rightarrow> string option"
  social_accounts :: "social_account list"
  status :: ui_status
  message :: string
  trace :: "event list"
  ticks :: nat
  timers :: "(nat \<times> string) list"

datatype fetch_result =
    Rejected string
  | Response bool "jsval option"

text \<open>
  Everything outside the component, as one page load sees it: the redirect URL, the
  opener, and the answers of the collaborators. \<open>JSON_parse\<close> is \<open>None\<close> where
  \<open>JSON.parse\<close> raises; the body of a \<open>Response\<close> is \<open>None\<close> where \<open>response.json()\<close>
  rejects; \<open>clock k\<close> is the k-th reading of the clock in ms; the table's answers
  are \<open>select_error\<close> (the lookup reports an error) and the messages of the
  errors the writes report, if any; \<open>table_text\<close> is what the table keeps in a
  text column when a boolean or an object is sent for it; \<open>engine_text\<close> is the message the engine gives
  the errors it raises; \<open>JSON_stringify p info t\<close> is the text of
  \<open>JSON.stringify({ platform: p, accountInfo: info, timestamp: t })\<close>.
\<close>

record env =
  location_search :: string
  location_pathname :: string
  location_origin :: string
  window_opener :: bool
  getSession :: "session option"
  setSession :: "jsval \<Rightarrow> error + set_session_result"
  JSON_parse :: "string \<Rightarrow> jsval option"
  exchangeCodeForToken :: "string \<Rightarrow> string \<Rightarrow> string \<Rightarrow> error + token_data"
  fetch :: "string \<Rightarrow> (string \<times> string) list \<Rightarrow> fetch_result"
  clock :: "nat \<Rightarrow> int"
  select_error :: bool
  update_error :: "string option"
  insert_error :: "string option"
  upsert_error :: bool
  table_text :: "jsval \<Rightarrow> string option"
  engine_text :: "error \<Rightarrow> string"
  JSON_stringify :: "string \<Rightarrow> account_info \<Rightarrow> int \<Rightarrow> string"

section \<open>Sequencing with exceptions\<close>

text \<open>
  A step of the handler takes the state and returns the new state with either a
  value or the exception raised. The state survives the exception: what was written
  before a \<open>throw\<close> stays written.
\<close>

type_synonym 'a action = "world \<Rightarrow> (error + 'a) \<times> world"

definition return :: "'a \<Rightarrow> 'a action" where
  "return x w = (Inr x, w)"

definition throw :: "error \<Rightarrow> 'a action" where
  "throw e w = (Inl e, w)"

definition and_then :: "'a action \<Rightarrow> ('a \<Rightarrow> 'b action) \<Rightarrow> 'b action" where
  "and_then m f w = (case m w of (Inl e, w') \<Rightarrow> (Inl e, w') | (Inr x, w') \<Rightarrow> f x w')"

definition lift :: "error + 'a \<Rightarrow> 'a action" where
  "lift r w = (r, w)"

definition emit :: "event \<Rightarrow> unit action" where
  "emit ev w = (Inr (), w\<lparr>trace := trace w @ [ev]\<rparr>)"

text \<open>\<open>try { m } catch (e) { h e }\<close>\<close>

definition try_catch :: "'a action \<Rightarrow> (error \<Rightarrow> 'a action) \<Rightarrow> 'a action" where
  "try_catch m h w = (case m w of (Inl e, w') \<Rightarrow> h e w' | (Inr x, w') \<Rightarrow> (Inr x, w'))"

section \<open>The collaborators\<close>

text \<open>Browser storage: \<open>getItem\<close>, \<open>removeItem\<close>.\<close>

definition local_get :: "string \<Rightarrow> string option action" where
  "local_get k w = (Inr (localStorage w k), w)"

definition local_remove :: "string \<Rightarrow> unit action" where
  "local_remove k w =
     (Inr (), w\<lparr>localStorage := (localStorage w)(k := None), trace := trace w @ [LocalRemove k]\<rparr>)"

definition local_set :: "string \<Rightarrow> string \<Rightarrow> unit action" where
  "local_set k v w =
     (Inr (), w\<lparr>localStorage := (localStorage w)(k \<mapsto> v), trace := trace w @ [LocalSet k]\<rparr>)"

definition session_get :: "string \<Rightarrow> string option action" where
  "session_get k w = (Inr (sessionStorage w k), w)"

definition session_remove :: "string \<Rightarrow> unit action" where
  "session_remove k w =
     (Inr (), w\<lparr>sessionStorage := (sessionStorage w)(k := None),
                trace := trace w @ [SessionRemove k]\<rparr>)"

text \<open>The component's state setters.\<close>

definition setStatus :: "ui_status \<Rightarrow> unit action" where
  "setStatus s w = (Inr (), w\<lparr>status := s\<rparr>)"

definition setMessage :: "string \<Rightarrow> unit action" where
  "setMessage m w = (Inr (), w\<lparr>message := m\<rparr>)"

definition setTimeout :: "string \<Rightarrow> nat \<Rightarrow> unit action" where
  "setTimeout captured ms w =
     (Inr (), w\<lparr>timers := timers w @ [(ms, captured)], trace := trace w @ [SetTimeout ms]\<rparr>)"

text \<open>The clock: \<open>Date.now()\<close> and \<open>new Date()\<close> both read it.\<close>

definition read_clock :: "env \<Rightarrow> int action" where
  "read_clock env w = (Inr (clock env (ticks w)), w\<lparr>ticks := Suc (ticks w)\<rparr>)"

text \<open>
  \<open>new Date(t).toISOString()\<close>: a RangeError outside the range of \<open>Date\<close>
  (8.64e15 ms either side of the epoch).
\<close>

definition toISOString :: "int \<Rightarrow> error + iso_time" where
  "toISOString t = (if \<bar>t\<bar> \<le> 8640000000000000 then Inr (ISO t) else Inl RangeError)"

text \<open>The auth client, the token endpoint and \<open>fetch\<close>: the call is recorded, the answer is the environment's.\<close>

definition call_getSession :: "env \<Rightarrow> session option action" where
  "call_getSession env = and_then (emit GetSession) (\<lambda>_. return (getSession env))"

definition call_setSession :: "env \<Rightarrow> jsval \<Rightarrow> set_session_result action" where
  "call_setSession env arg = and_then (emit (SetSession arg)) (\<lambda>_. lift (setSession env arg))"

definition call_exchangeCodeForToken ::
  "env \<Rightarrow> string \<Rightarrow> string \<Rightarrow> string \<Rightarrow> token_data action" where
  "call_exchangeCodeForToken env p code state =
     and_then (emit (ExchangeCode p code state)) (\<lambda>_. lift (exchangeCodeForToken env p code state))"

definition call_fetch ::
  "env \<Rightarrow> string \<Rightarrow> (string \<times> string) list \<Rightarrow> (bool \<times> jsval option) action" where
  "call_fetch env url headers =
     and_then (emit (Fetch url headers)) (\<lambda>_.
       case fetch env url headers of
         Rejected m \<Rightarrow> throw (Thrown m)
       | Response ok body \<Rightarrow> return (ok, body))"

section \<open>The table \<open>social_accounts\<close>\<close>

text \<open>
  The table is the list of its rows. A write that reports an error changes
  nothing. The key of a new row is one no row has.
\<close>

definition fresh_id :: "social_account list \<Rightarrow> nat" where
  "fresh_id rows = Suc (foldr max (map row_id rows) 0)"

text \<open>
  \<open>.maybeSingle()\<close> after \<open>.select('id')\<close>: the \<open>id\<close> of the one row, \<open>null\<close> for none;
  for several rows it is \<open>null\<close> with an error.
\<close>

definition maybeSingle :: "social_account list \<Rightarrow> nat option" where
  "maybeSingle rows = (case rows of [r] \<Rightarrow> Some (row_id r) | _ \<Rightarrow> None)"

text \<open>
  What a text column keeps for a value sent in the body of a write. A string is
  kept as it is. A property that is \<open>undefined\<close> is dropped from the JSON body,
  and \<open>null\<close> is sent as null: both leave the column NULL (the table is taken to
  have no default for it). A boolean or an object is the table's to convert.
\<close>

definition column_value :: "env \<Rightarrow> jsval \<Rightarrow> string option" where
  "column_value env v =
     (case v of
        JStr s \<Rightarrow> Some s
      | JUndefined \<Rightarrow> None
      | JNull \<Rightarrow> None
      | _ \<Rightarrow> table_text env v)"

text \<open>
  The lookup by \<open>user_id\<close>, \<open>platform\<close> and \<open>account_handle\<close>. A filter
  \<open>.eq(c, v)\<close> puts the text \<open>`eq.${v}`\<close> into the query when it is called, so the
  handle is converted as in a template literal (\<open>undefined\<close> becomes the text
  "undefined", and the conversion can throw), and the filter keeps the rows whose
  column holds that text; a column that is NULL is never kept. The client
  answers with \<open>{ data, error }\<close> and does not throw; the handler takes \<open>data\<close>
  from the answer and never looks at \<open>error\<close>, so a lookup that fails reads as
  "no row".
\<close>

definition db_select :: "env \<Rightarrow> string \<Rightarrow> string \<Rightarrow> jsval \<Rightarrow> nat option action" where
  "db_select env u p h w =
     (case template h of
        Inl e \<Rightarrow> (Inl e, w)
      | Inr s \<Rightarrow>
          (Inr (if select_error env then None
                else maybeSingle
                       (filter (\<lambda>r. user_id r = u \<and> platform r = p \<and> account_handle r = Some s)
                               (social_accounts w))),
           w\<lparr>trace := trace w @ [DbSelect u p s]\<rparr>))"

text \<open>\<open>.update(patch).eq('id', i)\<close>; the result is the \<open>error\<close> of the answer.\<close>

definition db_update ::
  "env \<Rightarrow> nat \<Rightarrow> (social_account \<Rightarrow> social_account) \<Rightarrow> string option action" where
  "db_update env i patch w =
     (case update_error env of
        Some m \<Rightarrow> (Inr (Some m), w\<lparr>trace := trace w @ [DbUpdate i]\<rparr>)
      | None \<Rightarrow>
          (Inr None,
           w\<lparr>social_accounts := map (\<lambda>r. if row_id r = i then patch r else r) (social_accounts w),
             trace := trace w @ [DbUpdate i]\<rparr>))"

text \<open>\<open>.insert(row)\<close>; the table gives the row its \<open>id\<close>.\<close>

definition db_insert :: "env \<Rightarrow> social_account \<Rightarrow> string option action" where
  "db_insert env row w =
     (case insert_error env of
        Some m \<Rightarrow> (Inr (Some m), w\<lparr>trace := trace w @ [DbInsert]\<rparr>)
      | None \<Rightarrow>
          (Inr None,
           w\<lparr>social_accounts :=
                social_accounts w @ [row\<lparr>row_id := fresh_id (social_accounts w)\<rparr>],
             trace := trace w @ [DbInsert]\<rparr>))"

text \<open>
  \<open>.upsert(row, { onConflict: 'user_id,platform' })\<close>: the row with the same
  \<open>user_id\<close> and \<open>platform\<close> takes every column sent and keeps its \<open>id\<close>; without
  such a row the row is inserted. The conflict target needs a unique constraint
  on the two columns, which a table holding two such rows cannot have: the
  upsert then reports an error. The result says whether an error was reported.
\<close>

definition db_upsert :: "env \<Rightarrow> social_account \<Rightarrow> bool action" where
  "db_upsert env row w =
     (let w' = w\<lparr>trace := trace w @ [DbUpsert (user_id row) (platform row)]\<rparr>;
          same = (\<lambda>r. user_id r = user_id row \<and> platform r = platform row)
      in if upsert_error env then (Inr True, w')
         else (case filter same (social_accounts w) of
                 [] \<Rightarrow> (Inr False,
                        w'\<lparr>social_accounts :=
                             social_accounts w @ [row\<lparr>row_id := fresh_id (social_accounts w)\<rparr>]\<rparr>)
               | [old] \<Rightarrow> (Inr False,
                        w'\<lparr>social_accounts :=
                             map (\<lambda>r. if same r then row\<lparr>row_id := row_id r\<rparr> else r)
                                 (social_accounts w)\<rparr>)
               | _ \<Rightarrow> (Inr True, w')))"

text \<open>
  The key the specification gives a record, and two properties of the table: one
  row per key, and \<open>id\<close> as primary key. The columns an update of the tokens
  must leave alone are \<open>identity_columns\<close>.
\<close>

definition account_key :: "social_account \<Rightarrow> string \<times> string \<times> string option" where
  "account_key r = (user_id r, platform r, account_handle r)"

definition one_per_key :: "social_account list \<Rightarrow> bool" where
  "one_per_key rows = distinct (map account_key rows)"


definition identity_columns ::
  "social_account \<Rightarrow> nat \<times> string \<times> string \<times> string option \<times> string option" where
  "identity_columns r = (row_id r, user_id r, platform r, account_name r, account_handle r)"

section \<open>\<open>fetchAccountInfo\<close>\<close>

text \<open>
  The function is the same text in both copies of the component. Its first
  \<open>switch\<close> picks the URL, its second the fields.
\<close>

definition profile_url :: "string \<Rightarrow> string option" where
  "profile_url p =
     (if p = ''twitter'' then Some ''https://api.twitter.com/2/users/me''
      else if p = ''linkedin'' then Some ''https://api.linkedin.com/v2/me''
      else if p = ''instagram'' then Some ''https://graph.instagram.com/me?fields=id,username''
      else if p = ''facebook'' then Some ''https://graph.facebook.com/me?fields=id,name''
      else if p = ''tiktok'' then
        Some ''https://open-api.tiktok.com/user/info/?fields=open_id,union_id,avatar_url,display_name''
      else None)"

definition bind_sum :: "error + 'a \<Rightarrow> ('a \<Rightarrow> error + 'b) \<Rightarrow> error + 'b" where
  "bind_sum r f = (case r of Inl e \<Rightarrow> Inl e | Inr x \<Rightarrow> f x)"

definition extract_twitter :: "jsval \<Rightarrow> error + account_info" where
  "extract_twitter data =
     bind_sum (get_prop data ''data'') (\<lambda>d1.
     bind_sum (get_prop d1 ''name'') (\<lambda>n.
     bind_sum (if truthy n then Inr n
               else bind_sum (get_prop data ''data'') (\<lambda>d2. get_prop d2 ''username'')) (\<lambda>nm.
     bind_sum (get_prop data ''data'') (\<lambda>d3.
     bind_sum (get_prop d3 ''username'') (\<lambda>u.
     bind_sum (template u) (\<lambda>s.
     Inr \<lparr>name = nm, handle = JStr (''@'' @ s)\<rparr>))))))"

definition extract_linkedin :: "jsval \<Rightarrow> error + account_info" where
  "extract_linkedin data =
     bind_sum (get_prop data ''localizedFirstName'') (\<lambda>f.
     bind_sum (template f) (\<lambda>fs.
     bind_sum (get_prop data ''localizedLastName'') (\<lambda>l.
     bind_sum (template l) (\<lambda>ls.
     bind_sum (get_prop data ''id'') (\<lambda>i.
     Inr \<lparr>name = JStr (fs @ '' '' @ ls), handle = i\<rparr>)))))"

definition extract_instagram :: "jsval \<Rightarrow> error + account_info" where
  "extract_instagram data =
     bind_sum (get_prop data ''username'') (\<lambda>n.
     bind_sum (get_prop data ''username'') (\<lambda>u.
     bind_sum (template u) (\<lambda>s.
     Inr \<lparr>name = n, handle = JStr (''@'' @ s)\<rparr>)))"

definition extract_facebook :: "jsval \<Rightarrow> error + account_info" where
  "extract_facebook data =
     bind_sum (get_prop data ''name'') (\<lambda>n.
     bind_sum (get_prop data ''id'') (\<lambda>i.
     Inr \<lparr>name = n, handle = i\<rparr>))"

definition extract_tiktok :: "jsval \<Rightarrow> error + account_info" where
  "extract_tiktok data =
     bind_sum (get_prop data ''data'') (\<lambda>d1.
     bind_sum (get_prop d1 ''user'') (\<lambda>u1.
     bind_sum (get_prop u1 ''display_name'') (\<lambda>n.
     bind_sum (get_prop data ''data'') (\<lambda>d2.
     bind_sum (get_prop d2 ''user'') (\<lambda>u2.
     bind_sum (get_prop u2 ''open_id'') (\<lambda>i.
     Inr \<lparr>name = n, handle = i\<rparr>))))))"

definition extract_account :: "string \<Rightarrow> jsval \<Rightarrow> error + account_info" where
  "extract_account p data =
     (if p = ''twitter'' then extract_twitter data
      else if p = ''linkedin'' then extract_linkedin data
      else if p = ''instagram'' then extract_instagram data
      else if p = ''facebook'' then extract_facebook data
      else if p = ''tiktok'' then extract_tiktok data
      else Inr \<lparr>name = JStr ''Unknown'', handle = JStr ''Unknown''\<rparr>)"

definition fetchAccountInfo :: "env \<Rightarrow> string \<Rightarrow> string \<Rightarrow> account_info action" where
  "fetchAccountInfo env p accessToken =
     (let headers = [(''Authorization'', ''Bearer '' @ accessToken)]
      in case profile_url p of
           None \<Rightarrow> throw (Error (''Unsupported platform: '' @ p))
         | Some url \<Rightarrow>
             and_then (call_fetch env url headers) (\<lambda>(ok, body).
               if \<not> ok then throw (Error (''Failed to fetch account info from '' @ p))
               else (case body of
                       None \<Rightarrow> throw SyntaxError
                     | Some data \<Rightarrow> lift (extract_account p data))))"

section \<open>The redirect parameters\<close>

text \<open>
  The first lines of \<open>handleOAuthCallback\<close>, the same in both copies: the query
  parameters, the two checks, and the platform as the last segment of the path.
  The result is \<open>(code, state, platform)\<close>.
\<close>

definition read_redirect :: "env \<Rightarrow> error + (string \<times> string \<times> string)" where
  "read_redirect env =
     (let urlParams = URLSearchParams (location_search env);
          code = get_param urlParams ''code'';
          state = get_param urlParams ''state'';
          err = get_param urlParams ''error'';
          errorDescription = get_param urlParams ''error_description''
      in if truthy_str err then Inl (Error (str_of (or_str errorDescription err)))
         else if \<not> truthy_str code \<or> \<not> truthy_str state
           then Inl (Error ''Missing authorization code or state'')
         else (let pathParts = split_on CHR ''/'' (location_pathname env);
                   p = (case rev pathParts of [] \<Rightarrow> [] | x # _ \<Rightarrow> x)
               in if p = [] then Inl (Error ''Platform not specified'')
                  else Inr (str_of code, str_of state, p)))"

section \<open>The handle-aware handler\<close>

text \<open>
  The repository holds two copies of the component \<open>OAuthCallback\<close>. This is
  \<open>handleOAuthCallback\<close> of the copy that looks the account up by user, platform
  and handle before it writes (the source file \<open>part_001\<close>, whose name in the
  repository is not recorded). Its \<open>try\<close> block is cut into the steps below, in
  the order of the source.
\<close>

text \<open>
  Restoring the stored snapshot (the inner \<open>try\<close> block): parse it, hand its two
  tokens to \<open>setSession\<close>, take the user when no error is reported, then remove the
  snapshot from storage.
\<close>

definition restore_saved :: "env \<Rightarrow> string \<Rightarrow> string \<Rightarrow> auth_user option action" where
  "restore_saved env p savedSession =
     (case JSON_parse env savedSession of
        None \<Rightarrow> throw SyntaxError
      | Some parsedSession \<Rightarrow>
          and_then (lift (get_prop parsedSession ''access_token'')) (\<lambda>a.
          and_then (lift (get_prop parsedSession ''refresh_token'')) (\<lambda>r.
          and_then (call_setSession env (JObj [(''access_token'', a), (''refresh_token'', r)]))
            (\<lambda>res.
          and_then (local_remove (''oauth_supabase_session_'' @ p)) (\<lambda>_.
          return (if \<not> session_error res then data_user res else None))))))"

text \<open>
  The user of the active session, or else of the restored snapshot; the inner
  \<open>catch\<close> only logs. Without a user the handler throws.
\<close>

definition restore_session :: "env \<Rightarrow> string \<Rightarrow> auth_user action" where
  "restore_session env p =
     and_then (call_getSession env) (\<lambda>existingSession.
     and_then
       (case existingSession of
          Some s \<Rightarrow> return (Some (session_user s))
        | None \<Rightarrow>
            and_then (local_get (''oauth_supabase_session_'' @ p)) (\<lambda>savedSession.
              if truthy_str savedSession
              then try_catch (restore_saved env p (str_of savedSession)) (\<lambda>e. return None)
              else return None))
       (\<lambda>currentUser.
          case currentUser of
            None \<Rightarrow> throw (Error
              ''You are not logged in. Please log in first and try connecting your Twitter account again.'')
          | Some u \<Rightarrow> return u))"

text \<open>
  \<open>tokenData.expires_in ? new Date(Date.now() + tokenData.expires_in * 1000).toISOString() : null\<close>
\<close>

definition expires_at :: "env \<Rightarrow> token_data \<Rightarrow> iso_time option action" where
  "expires_at env tokenData =
     (case expires_in tokenData of
        None \<Rightarrow> return None
      | Some n \<Rightarrow>
          if n = 0 then return None
          else and_then (read_clock env) (\<lambda>now.
               and_then (lift (toISOString (now + n * 1000))) (\<lambda>t. return (Some t))))"

text \<open>\<open>new Date().toISOString()\<close>\<close>

definition now_iso :: "env \<Rightarrow> iso_time action" where
  "now_iso env = and_then (read_clock env) (\<lambda>now. lift (toISOString now))"

text \<open>The two display hints are read, then removed.\<close>

definition take_hints :: "string \<Rightarrow> (string option \<times> string option) action" where
  "take_hints p =
     and_then (session_get (''oauth_username_'' @ p)) (\<lambda>storedUsername.
     and_then (session_get (''oauth_display_name_'' @ p)) (\<lambda>storedDisplayName.
     and_then (session_remove (''oauth_username_'' @ p)) (\<lambda>_.
     and_then (session_remove (''oauth_display_name_'' @ p)) (\<lambda>_.
     return (storedUsername, storedDisplayName)))))"

text \<open>
  The lookup and the write: an update of the tokens of the row found, or else
  the insert of a new row.
\<close>

definition reconnect_patch ::
  "token_data \<Rightarrow> iso_time option \<Rightarrow> iso_time \<Rightarrow> social_account \<Rightarrow> social_account" where
  "reconnect_patch tokenData expiresAt updatedAt r =
     r\<lparr>access_token := token_data.access_token tokenData,
       refresh_token := or_null (token_data.refresh_token tokenData),
       token_expires_at := expiresAt,
       is_connected := True,
       updated_at := Some updatedAt\<rparr>"

definition new_row ::
  "env \<Rightarrow> auth_user \<Rightarrow> string \<Rightarrow> jsval \<Rightarrow> jsval \<Rightarrow> token_data \<Rightarrow> iso_time option
     \<Rightarrow> social_account" where
  "new_row env currentUser p nm h tokenData expiresAt =
     \<lparr>row_id = 0,
      user_id = uid currentUser,
      platform = p,
      account_name = column_value env nm,
      account_handle = column_value env h,
      access_token = token_data.access_token tokenData,
      refresh_token = or_null (token_data.refresh_token tokenData),
      token_expires_at = expiresAt,
      is_connected = True,
      updated_at = None\<rparr>"

definition save_account ::
  "env \<Rightarrow> auth_user \<Rightarrow> string \<Rightarrow> account_info \<Rightarrow> token_data \<Rightarrow> string option \<Rightarrow> unit action" where
  "save_account env currentUser p accountInfo tokenData storedDisplayName =
     and_then (db_select env (uid currentUser) p (handle accountInfo)) (\<lambda>existingAccount.
       case existingAccount of
         Some i \<Rightarrow>
           and_then (expires_at env tokenData) (\<lambda>expiresAt.
           and_then (now_iso env) (\<lambda>updatedAt.
           and_then (db_update env i (reconnect_patch tokenData expiresAt updatedAt)) (\<lambda>updateError.
             case updateError of Some m \<Rightarrow> throw (Thrown m) | None \<Rightarrow> return ())))
       | None \<Rightarrow>
           and_then (expires_at env tokenData) (\<lambda>expiresAt.
           and_then (db_insert env
                       (new_row env currentUser p
                          (if truthy_str storedDisplayName then JStr (str_of storedDisplayName)
                           else name accountInfo)
                          (handle accountInfo) tokenData expiresAt)) (\<lambda>dbError.
             case dbError of Some m \<Rightarrow> throw (Thrown m) | None \<Rightarrow> return ())))"

text \<open>The \<open>try\<close> block.\<close>

definition callback_try :: "env \<Rightarrow> unit action" where
  "callback_try env =
     and_then (lift (read_redirect env)) (\<lambda>(code, state, p).
     and_then (restore_session env p) (\<lambda>currentUser.
     and_then (setMessage (''Connecting to '' @ p @ ''...'')) (\<lambda>_.
     and_then (call_exchangeCodeForToken env p code state) (\<lambda>tokenData.
     and_then (fetchAccountInfo env p (token_data.access_token tokenData)) (\<lambda>accountInfo.
     and_then (take_hints p) (\<lambda>(storedUsername, storedDisplayName).
     and_then (save_account env currentUser p accountInfo tokenData storedDisplayName) (\<lambda>_.
     and_then (setStatus success) (\<lambda>_.
     and_then (setMessage (''Successfully connected your '' @ p @ '' account!'')) (\<lambda>_.
     setTimeout p 2000)))))))))"

text \<open>\<open>error.message || 'Failed to connect account'\<close>\<close>

definition error_message :: "env \<Rightarrow> error \<Rightarrow> string" where
  "error_message env e =
     (let m = (case e of Error m \<Rightarrow> m | Thrown m \<Rightarrow> m | _ \<Rightarrow> engine_text env e)
      in if m \<noteq> [] then m else ''Failed to connect account'')"

text \<open>The whole handler: the \<open>try\<close> block and its \<open>catch\<close>.\<close>

definition handleOAuthCallback :: "env \<Rightarrow> world \<Rightarrow> world" where
  "handleOAuthCallback env w =
     (case callback_try env w of
        (Inl e, w') \<Rightarrow> w'\<lparr>status := error, message := error_message env e\<rparr>
      | (Inr _, w') \<Rightarrow> w')"

text \<open>
  The closure the handler hands to \<open>setTimeout\<close>:
  \<open>window.close(); window.opener?.postMessage({ type: 'oauth_success', platform }, window.location.origin)\<close>
\<close>

definition on_timeout :: "env \<Rightarrow> string \<Rightarrow> world \<Rightarrow> world" where
  "on_timeout env p w =
     snd (and_then (emit WindowClose) (\<lambda>_.
            if window_opener env then emit (PostMessage ''oauth_success'' p (location_origin env))
            else return ()) w)"

section \<open>The upsert handler\<close>

text \<open>
  This is \<open>handleOAuthCallback\<close> of the other copy,
  \<open>src/components/OAuthCallback.tsx\<close>, which writes with one upsert keyed by user
  and platform. It differs from the
  handle-aware copy in the session step, the write, a note it leaves in
  \<open>localStorage\<close>, and the closure it hands to \<open>setTimeout\<close>.
\<close>

text \<open>
  The active session, or else the one \<open>setSession\<close> gives for the parsed snapshot.
  There is no inner \<open>try\<close>: a snapshot that does not parse throws out of the
  handler's \<open>try\<close> block. The snapshot is not removed.
\<close>

definition restore_session_upsert :: "env \<Rightarrow> string \<Rightarrow> session action" where
  "restore_session_upsert env p =
     and_then (call_getSession env) (\<lambda>session0.
     and_then
       (case session0 of
          Some s \<Rightarrow> return (Some s)
        | None \<Rightarrow>
            and_then (local_get (''oauth_supabase_session_'' @ p)) (\<lambda>savedSession.
              if truthy_str savedSession
              then (case JSON_parse env (str_of savedSession) of
                      None \<Rightarrow> throw SyntaxError
                    | Some parsed \<Rightarrow>
                        and_then (call_setSession env parsed) (\<lambda>res.
                          return (if \<not> session_error res then data_session res else None)))
              else return None))
       (\<lambda>session1.
          case session1 of
            None \<Rightarrow> throw (Error
              ''You are not logged in. Please log in first and try connecting your Twitter account again.'')
          | Some s \<Rightarrow> return s))"

definition upsert_row ::
  "env \<Rightarrow> session \<Rightarrow> string \<Rightarrow> account_info \<Rightarrow> token_data \<Rightarrow> iso_time option \<Rightarrow> iso_time
     \<Rightarrow> social_account" where
  "upsert_row env s p accountInfo tokenData expiresAt updatedAt =
     \<lparr>row_id = 0,
      user_id = uid (session_user s),
      platform = p,
      account_name = column_value env (name accountInfo),
      account_handle = column_value env (handle accountInfo),
      access_token = token_data.access_token tokenData,
      refresh_token = or_null (token_data.refresh_token tokenData),
      token_expires_at = expiresAt,
      is_connected = True,
      updated_at = Some updatedAt\<rparr>"

definition save_account_upsert ::
  "env \<Rightarrow> session \<Rightarrow> string \<Rightarrow> account_info \<Rightarrow> token_data \<Rightarrow> unit action" where
  "save_account_upsert env s p accountInfo tokenData =
     and_then (expires_at env tokenData) (\<lambda>expiresAt.
     and_then (now_iso env) (\<lambda>updatedAt.
     and_then (db_upsert env (upsert_row env s p accountInfo tokenData expiresAt updatedAt)) (\<lambda>dbError.
       if dbError then throw (Error ''Failed to save account connection'') else return ())))"

definition callback_try_upsert :: "env \<Rightarrow> unit action" where
  "callback_try_upsert env =
     and_then (lift (read_redirect env)) (\<lambda>(code, state, p).
     and_then (setMessage (''Connecting to '' @ p @ ''...'')) (\<lambda>_.
     and_then (restore_session_upsert env p) (\<lambda>s.
     and_then (call_exchangeCodeForToken env p code state) (\<lambda>tokenData.
     and_then (fetchAccountInfo env p (token_data.access_token tokenData)) (\<lambda>accountInfo.
     and_then (save_account_upsert env s p accountInfo tokenData) (\<lambda>_.
     and_then (read_clock env) (\<lambda>now.
     and_then (local_set (''oauth_success_'' @ p) (JSON_stringify env p accountInfo now)) (\<lambda>_.
     and_then (setStatus success) (\<lambda>_.
     and_then (setMessage (''Successfully connected your '' @ p @ '' account!'')) (\<lambda>_.
     setTimeout p 2000))))))))))"

definition handleOAuthCallback_upsert :: "env \<Rightarrow> world \<Rightarrow> world" where
  "handleOAuthCallback_upsert env w =
     (case callback_try_upsert env w of
        (Inl e, w') \<Rightarrow> w'\<lparr>status := error, message := error_message env e\<rparr>
      | (Inr _, w') \<Rightarrow> w')"

text \<open>
  The closure of this copy: with an opener, \<open>postMessage\<close> then \<open>window.close()\<close>;
  without one, \<open>window.location.href = '/'\<close>.
\<close>

definition on_timeout_upsert :: "env \<Rightarrow> string \<Rightarrow> world \<Rightarrow> world" where
  "on_timeout_upsert env p w =
     snd ((if window_opener env
           then and_then (emit (PostMessage ''oauth_success'' p (location_origin env)))
                  (\<lambda>_. emit WindowClose)
           else emit (Navigate ''/'')) w)"

section \<open>A sample page load\<close>

text \<open>
  The redirect \<open>?code=abc&state=xyz\<close> on \<open>/oauth/callback/twitter\<close>, no active
  session, a snapshot in storage that \<open>setSession\<close> accepts, a token exchange that
  returns \<open>{access_token: "tok", expires_in: 3600}\<close>, and one profile per
  platform API. The table is empty and no display hint is stored.
\<close>

definition sample_profile :: "string \<Rightarrow> jsval" where
  "sample_profile url =
     (if url = ''https://api.twitter.com/2/users/me'' then
        JObj [(''data'', JObj [(''name'', JStr ''Jane''), (''username'', JStr ''jane_d'')])]
      else if url = ''https://api.linkedin.com/v2/me'' then
        JObj [(''localizedFirstName'', JStr ''Jane''), (''localizedLastName'', JStr ''Doe''),
              (''id'', JStr ''li-7'')]
      else if url = ''https://graph.instagram.com/me?fields=id,username'' then
        JObj [(''id'', JStr ''ig-7''), (''username'', JStr ''jane.d'')]
      else if url = ''https://graph.facebook.com/me?fields=id,name'' then
        JObj [(''id'', JStr ''fb-7''), (''name'', JStr ''Jane Doe'')]
      else
        JObj [(''data'', JObj [(''user'',
                JObj [(''open_id'', JStr ''tt-7''), (''display_name'', JStr ''Jane D'')])])])"

definition sample_snapshot :: jsval where
  "sample_snapshot = JObj [(''access_token'', JStr ''sa''), (''refresh_token'', JStr ''sr'')]"

definition sample_env :: env where
  "sample_env =
     \<lparr>location_search = ''?code=abc&state=xyz'',
      location_pathname = ''/oauth/callback/twitter'',
      location_origin = ''https://app.example'',
      window_opener = True,
      getSession = None,
      setSession = (\<lambda>v. Inr \<lparr>data_user = Some \<lparr>uid = ''u1''\<rparr>,
                               data_session = Some \<lparr>session_user = \<lparr>uid = ''u1''\<rparr>\<rparr>,
                               session_error = False\<rparr>),
      JSON_parse = (\<lambda>s. if s = ''snapshot'' then Some sample_snapshot else None),
      exchangeCodeForToken =
        (\<lambda>p code state. Inr \<lparr>token_data.access_token = ''tok'',
                               token_data.refresh_token = None,
                               expires_in = Some 3600\<rparr>),
      fetch = (\<lambda>url headers. Response True (Some (sample_profile url))),
      clock = (\<lambda>k. 1700000000000 + int k),
      select_error = False,
      update_error = None,
      insert_error = None,
      upsert_error = False,
      table_text = (\<lambda>v. None),
      engine_text = (\<lambda>e. ''engine error''),
      JSON_stringify = (\<lambda>p info t. ''{}'')\<rparr>"

definition sample_world :: world where
  "sample_world =
     \<lparr>localStorage = [''oauth_supabase_session_twitter'' \<mapsto> ''snapshot''],
      sessionStorage = Map.empty,
      social_accounts = [],
      status = loading,
      message = ''Processing authentication...'',
      trace = [],
      ticks = 0,
      timers = []\<rparr>"

text \<open>
  A later page load for the same account: the table as the sample page load left
  it, an active session of the same user, and a fresh token pair.
\<close>

definition sample_connected :: world where
  "sample_connected =
     sample_world\<lparr>social_accounts :=
       [\<lparr>row_id = 1, user_id = ''u1'', platform = ''twitter'',
         account_name = Some ''Jane'', account_handle = Some ''@jane_d'',
         access_token = ''tok'', refresh_token = None,
         token_expires_at = Some (ISO 1700003600000), is_connected = True,
         updated_at = None\<rparr>]\<rparr>"

definition sample_env_again :: env where
  "sample_env_again =
     sample_env\<lparr>getSession := Some \<lparr>session_user = \<lparr>uid = ''u1''\<rparr>\<rparr>,
                exchangeCodeForToken :=
                  (\<lambda>p code state. Inr \<lparr>token_data.access_token = ''tok2'',
                                         token_data.refresh_token = Some ''ref2'',
                                         expires_in = None\<rparr>)\<rparr>"

text \<open>The sample state with both display hints stored.\<close>

definition sample_hinted :: world where
  "sample_hinted =
     sample_world\<lparr>sessionStorage :=
       [''oauth_username_twitter'' \<mapsto> ''jd'', ''oauth_display_name_twitter'' \<mapsto> ''Janey'']\<rparr>"

text \<open>
  A LinkedIn profile that carries no \<open>id\<close>, so that the handle is \<open>undefined\<close>,
  and a table holding the row a page load with such a profile stores.
\<close>

definition sample_env_no_id :: env where
  "sample_env_no_id =
     sample_env_again\<lparr>location_pathname := ''/oauth/callback/linkedin'',
                      fetch := (\<lambda>url headers. Response True (Some (JObj
                        [(''localizedFirstName'', JStr ''Jane''),
                         (''localizedLastName'', JStr ''Doe'')])))\<rparr>"

definition sample_no_id :: world where
  "sample_no_id =
     sample_world\<lparr>social_accounts :=
       [\<lparr>row_id = 1, user_id = ''u1'', platform = ''linkedin'',
         account_name = Some ''Jane Doe'', account_handle = None,
         access_token = ''tok2'', refresh_token = Some ''ref2'',
         token_expires_at = None, is_connected = True,
         updated_at = None\<rparr>]\<rparr>"

section \<open>Properties of \<open>fetchAccountInfo\<close>\<close>

lemmas action_defs = return_def throw_def and_then_def lift_def emit_def try_catch_def

lemma fetch_ok:
  assumes "profile_url p = Some url"
    and "fetch env url [(''Authorization'', ''Bearer '' @ tok)] = Response True (Some data)"
  shows "fetchAccountInfo env p tok w =
     (extract_account p data,
      w\<lparr>trace := trace w @ [Fetch url [(''Authorization'', ''Bearer '' @ tok)]]\<rparr>)"
  using assms by (simp add: fetchAccountInfo_def call_fetch_def action_defs)

lemma extract_twitter_rule:
  "get_prop data ''data'' = Inr d \<Longrightarrow> get_prop d ''name'' = Inr n \<Longrightarrow>
   get_prop d ''username'' = Inr u \<Longrightarrow> template u = Inr s \<Longrightarrow>
   extract_account ''twitter'' data = Inr \<lparr>name = js_or n u, handle = JStr (''@'' @ s)\<rparr>"
  by (simp add: extract_account_def extract_twitter_def bind_sum_def js_or_def)

lemma extract_linkedin_rule:
  "get_prop data ''localizedFirstName'' = Inr f \<Longrightarrow> template f = Inr fs \<Longrightarrow>
   get_prop data ''localizedLastName'' = Inr l \<Longrightarrow> template l = Inr ls \<Longrightarrow>
   get_prop data ''id'' = Inr i \<Longrightarrow>
   extract_account ''linkedin'' data = Inr \<lparr>name = JStr (fs @ '' '' @ ls), handle = i\<rparr>"
  by (simp add: extract_account_def extract_linkedin_def bind_sum_def)

lemma extract_instagram_rule:
  "get_prop data ''username'' = Inr u \<Longrightarrow> template u = Inr s \<Longrightarrow>
   extract_account ''instagram'' data = Inr \<lparr>name = u, handle = JStr (''@'' @ s)\<rparr>"
  by (simp add: extract_account_def extract_instagram_def bind_sum_def)

lemma extract_facebook_rule:
  "get_prop data ''name'' = Inr n \<Longrightarrow> get_prop data ''id'' = Inr i \<Longrightarrow>
   extract_account ''facebook'' data = Inr \<lparr>name = n, handle = i\<rparr>"
  by (simp add: extract_account_def extract_facebook_def bind_sum_def)

lemma extract_tiktok_rule:
  "get_prop data ''data'' = Inr d \<Longrightarrow> get_prop d ''user'' = Inr u \<Longrightarrow>
   get_prop u ''display_name'' = Inr n \<Longrightarrow> get_prop u ''open_id'' = Inr i \<Longrightarrow>
   extract_account ''tiktok'' data = Inr \<lparr>name = n, handle = i\<rparr>"
  by (simp add: extract_account_def extract_tiktok_def bind_sum_def)

text \<open>
  C8. For a platform identifier outside the five supported ones,
  \<open>fetchAccountInfo\<close> throws "Unsupported platform: ..." and leaves the state as it
  was: the list of calls has not grown, so no request was issued.
\<close>

theorem fetchAccountInfo_unsupported:
  "p \<notin> {''twitter'', ''linkedin'', ''instagram'', ''facebook'', ''tiktok''} \<Longrightarrow>
   fetchAccountInfo env p accessToken w = (Inl (Error (''Unsupported platform: '' @ p)), w)"
  by (simp add: fetchAccountInfo_def profile_url_def throw_def)

theorem fetchAccountInfo_unsupported_witness:
  "''myspace'' \<notin> {''twitter'', ''linkedin'', ''instagram'', ''facebook'', ''tiktok''} \<and>
   fetchAccountInfo sample_env ''myspace'' ''tok'' sample_world =
     (Inl (Error ''Unsupported platform: myspace''), sample_world)"
  using fetchAccountInfo_unsupported [of "''myspace''" sample_env "''tok''" sample_world]
  by simp

lemma fetch_twitter:
  assumes "fetch env ''https://api.twitter.com/2/users/me''
       [(''Authorization'', ''Bearer '' @ accessToken)] = Response True (Some tw)"
    and "get_prop tw ''data'' = Inr twd"
    and "get_prop twd ''name'' = Inr twn"
    and "get_prop twd ''username'' = Inr twu"
    and "template twu = Inr tws"
  shows "fetchAccountInfo env ''twitter'' accessToken w =
      (Inr \<lparr>name = js_or twn twu, handle = JStr (''@'' @ tws)\<rparr>,
       w\<lparr>trace := trace w @
          [Fetch ''https://api.twitter.com/2/users/me''
             [(''Authorization'', ''Bearer '' @ accessToken)]]\<rparr>)"
proof -
  have "profile_url ''twitter'' = Some ''https://api.twitter.com/2/users/me''"
    by (simp add: profile_url_def)
  then show ?thesis
    using assms by (simp add: fetch_ok extract_twitter_rule)
qed

lemma fetch_linkedin:
  assumes "fetch env ''https://api.linkedin.com/v2/me''
       [(''Authorization'', ''Bearer '' @ accessToken)] = Response True (Some li)"
    and "get_prop li ''localizedFirstName'' = Inr lif"
    and "template lif = Inr lifs"
    and "get_prop li ''localizedLastName'' = Inr lil"
    and "template lil = Inr lils"
    and "get_prop li ''id'' = Inr lii"
  shows "fetchAccountInfo env ''linkedin'' accessToken w =
      (Inr \<lparr>name = JStr (lifs @ '' '' @ lils), handle = lii\<rparr>,
       w\<lparr>trace := trace w @
          [Fetch ''https://api.linkedin.com/v2/me''
             [(''Authorization'', ''Bearer '' @ accessToken)]]\<rparr>)"
proof -
  have "profile_url ''linkedin'' = Some ''https://api.linkedin.com/v2/me''"
    by (simp add: profile_url_def)
  then show ?thesis
    using assms by (simp add: fetch_ok extract_linkedin_rule)
qed

lemma fetch_instagram:
  assumes "fetch env ''https://graph.instagram.com/me?fields=id,username''
       [(''Authorization'', ''Bearer '' @ accessToken)] = Response True (Some ig)"
    and "get_prop ig ''username'' = Inr igu"
    and "template igu = Inr igs"
  shows "fetchAccountInfo env ''instagram'' accessToken w =
      (Inr \<lparr>name = igu, handle = JStr (''@'' @ igs)\<rparr>,
       w\<lparr>trace := trace w @
          [Fetch ''https://graph.instagram.com/me?fields=id,username''
             [(''Authorization'', ''Bearer '' @ accessToken)]]\<rparr>)"
proof -
  have "profile_url ''instagram'' = Some ''https://graph.instagram.com/me?fields=id,username''"
    by (simp add: profile_url_def)
  then show ?thesis
    using assms by (simp add: fetch_ok extract_instagram_rule)
qed

lemma fetch_facebook:
  assumes "fetch env ''https://graph.facebook.com/me?fields=id,name''
       [(''Authorization'', ''Bearer '' @ accessToken)] = Response True (Some fb)"
    and "get_prop fb ''name'' = Inr fbn"
    and "get_prop fb ''id'' = Inr fbi"
  shows "fetchAccountInfo env ''facebook'' accessToken w =
      (Inr \<lparr>name = fbn, handle = fbi\<rparr>,
       w\<lparr>trace := trace w @
          [Fetch ''https://graph.facebook.com/me?fields=id,name''
             [(''Authorization'', ''Bearer '' @ accessToken)]]\<rparr>)"
proof -
  have "profile_url ''facebook'' = Some ''https://graph.facebook.com/me?fields=id,name''"
    by (simp add: profile_url_def)
  then show ?thesis
    using assms by (simp add: fetch_ok extract_facebook_rule)
qed

lemma fetch_tiktok:
  assumes "fetch env ''https://open-api.tiktok.com/user/info/?fields=open_id,union_id,avatar_url,display_name''
       [(''Authorization'', ''Bearer '' @ accessToken)] = Response True (Some tt)"
    and "get_prop tt ''data'' = Inr ttd"
    and "get_prop ttd ''user'' = Inr ttu"
    and "get_prop ttu ''display_name'' = Inr ttn"
    and "get_prop ttu ''open_id'' = Inr tti"
  shows "fetchAccountInfo env ''tiktok'' accessToken w =
      (Inr \<lparr>name = ttn, handle = tti\<rparr>,
       w\<lparr>trace := trace w @
          [Fetch ''https://open-api.tiktok.com/user/info/?fields=open_id,union_id,avatar_url,display_name''
             [(''Authorization'', ''Bearer '' @ accessToken)]]\<rparr>)"
proof -
  have "profile_url ''tiktok'' = Some ''https://open-api.tiktok.com/user/info/?fields=open_id,union_id,avatar_url,display_name''"
    by (simp add: profile_url_def)
  then show ?thesis
    using assms by (simp add: fetch_ok extract_tiktok_rule)
qed

text \<open>
  C3. For each of the five platforms \<open>fetchAccountInfo\<close> makes one request, to the
  platform's endpoint, with the header \<open>Authorization: Bearer token\<close>, and on an
  ok response returns: for twitter the name \<open>data.data.name || data.data.username\<close>
  and the handle \<open>"@" + data.data.username\<close>; for linkedin the name
  \<open>localizedFirstName + " " + localizedLastName\<close> and the handle \<open>id\<close>; for instagram
  the name \<open>username\<close> and the handle \<open>"@" + username\<close>; for facebook the name
  \<open>name\<close> and the handle \<open>id\<close>; for tiktok the name \<open>data.data.user.display_name\<close>
  and the handle \<open>data.data.user.open_id\<close>.
\<close>

theorem fetchAccountInfo_documented:
  "(fetch env ''https://api.twitter.com/2/users/me''
       [(''Authorization'', ''Bearer '' @ accessToken)] = Response True (Some tw) \<and>
    get_prop tw ''data'' = Inr twd \<and>
    get_prop twd ''name'' = Inr twn \<and>
    get_prop twd ''username'' = Inr twu \<and>
    template twu = Inr tws \<longrightarrow>
    fetchAccountInfo env ''twitter'' accessToken w =
      (Inr \<lparr>name = js_or twn twu, handle = JStr (''@'' @ tws)\<rparr>,
       w\<lparr>trace := trace w @
          [Fetch ''https://api.twitter.com/2/users/me''
             [(''Authorization'', ''Bearer '' @ accessToken)]]\<rparr>)) \<and>
   (fetch env ''https://api.linkedin.com/v2/me''
       [(''Authorization'', ''Bearer '' @ accessToken)] = Response True (Some li) \<and>
    get_prop li ''localizedFirstName'' = Inr lif \<and>
    template lif = Inr lifs \<and>
    get_prop li ''localizedLastName'' = Inr lil \<and>
    template lil = Inr lils \<and>
    get_prop li ''id'' = Inr lii \<longrightarrow>
    fetchAccountInfo env ''linkedin'' accessToken w =
      (Inr \<lparr>name = JStr (lifs @ '' '' @ lils), handle = lii\<rparr>,
       w\<lparr>trace := trace w @
          [Fetch ''https://api.linkedin.com/v2/me''
             [(''Authorization'', ''Bearer '' @ accessToken)]]\<rparr>)) \<and>
   (fetch env ''https://graph.instagram.com/me?fields=id,username''
       [(''Authorization'', ''Bearer '' @ accessToken)] = Response True (Some ig) \<and>
    get_prop ig ''username'' = Inr igu \<and>
    template igu = Inr igs \<longrightarrow>
    fetchAccountInfo env ''instagram'' accessToken w =
      (Inr \<lparr>name = igu, handle = JStr (''@'' @ igs)\<rparr>,
       w\<lparr>trace := trace w @
          [Fetch ''https://graph.instagram.com/me?fields=id,username''
             [(''Authorization'', ''Bearer '' @ accessToken)]]\<rparr>)) \<and>
   (fetch env ''https://graph.facebook.com/me?fields=id,name''
       [(''Authorization'', ''Bearer '' @ accessToken)] = Response True (Some fb) \<and>
    get_prop fb ''name'' = Inr fbn \<and>
    get_prop fb ''id'' = Inr fbi \<longrightarrow>
    fetchAccountInfo env ''facebook'' accessToken w =
      (Inr \<lparr>name = fbn, handle = fbi\<rparr>,
       w\<lparr>trace := trace w @
          [Fetch ''https://graph.facebook.com/me?fields=id,name''
             [(''Authorization'', ''Bearer '' @ accessToken)]]\<rparr>)) \<and>
   (fetch env ''https://open-api.tiktok.com/user/info/?fields=open_id,union_id,avatar_url,display_name''
       [(''Authorization'', ''Bearer '' @ accessToken)] = Response True (Some tt) \<and>
    get_prop tt ''data'' = Inr ttd \<and>
    get_prop ttd ''user'' = Inr ttu \<and>
    get_prop ttu ''display_name'' = Inr ttn \<and>
    get_prop ttu ''open_id'' = Inr tti \<longrightarrow>
    fetchAccountInfo env ''tiktok'' accessToken w =
      (Inr \<lparr>name = ttn, handle = tti\<rparr>,
       w\<lparr>trace := trace w @
          [Fetch ''https://open-api.tiktok.com/user/info/?fields=open_id,union_id,avatar_url,display_name''
             [(''Authorization'', ''Bearer '' @ accessToken)]]\<rparr>))"
  by (intro conjI impI; elim conjE)
     (rule fetch_twitter fetch_linkedin fetch_instagram fetch_facebook fetch_tiktok; assumption)+

theorem fetchAccountInfo_documented_witness:
  "fetch sample_env ''https://api.twitter.com/2/users/me'' [(''Authorization'', ''Bearer tok'')]
     = Response True (Some (sample_profile ''https://api.twitter.com/2/users/me'')) \<and>
   fetchAccountInfo sample_env ''twitter'' ''tok'' sample_world =
     (Inr \<lparr>name = JStr ''Jane'', handle = JStr ''@jane_d''\<rparr>,
      sample_world\<lparr>trace := trace sample_world @
         [Fetch ''https://api.twitter.com/2/users/me'' [(''Authorization'', ''Bearer tok'')]]\<rparr>) \<and>
   fetchAccountInfo sample_env ''linkedin'' ''tok'' sample_world =
     (Inr \<lparr>name = JStr ''Jane Doe'', handle = JStr ''li-7''\<rparr>,
      sample_world\<lparr>trace := trace sample_world @
         [Fetch ''https://api.linkedin.com/v2/me'' [(''Authorization'', ''Bearer tok'')]]\<rparr>) \<and>
   fetchAccountInfo sample_env ''instagram'' ''tok'' sample_world =
     (Inr \<lparr>name = JStr ''jane.d'', handle = JStr ''@jane.d''\<rparr>,
      sample_world\<lparr>trace := trace sample_world @
         [Fetch ''https://graph.instagram.com/me?fields=id,username''
            [(''Authorization'', ''Bearer tok'')]]\<rparr>) \<and>
   fetchAccountInfo sample_env ''facebook'' ''tok'' sample_world =
     (Inr \<lparr>name = JStr ''Jane Doe'', handle = JStr ''fb-7''\<rparr>,
      sample_world\<lparr>trace := trace sample_world @
         [Fetch ''https://graph.facebook.com/me?fields=id,name''
            [(''Authorization'', ''Bearer tok'')]]\<rparr>) \<and>
   fetchAccountInfo sample_env ''tiktok'' ''tok'' sample_world =
     (Inr \<lparr>name = JStr ''Jane D'', handle = JStr ''tt-7''\<rparr>,
      sample_world\<lparr>trace := trace sample_world @
         [Fetch ''https://open-api.tiktok.com/user/info/?fields=open_id,union_id,avatar_url,display_name''
            [(''Authorization'', ''Bearer tok'')]]\<rparr>)"
  using fetchAccountInfo_documented
    [where env = sample_env and accessToken = "''tok''" and w = sample_world
       and tw = "sample_profile ''https://api.twitter.com/2/users/me''"
       and twd = "JObj [(''name'', JStr ''Jane''), (''username'', JStr ''jane_d'')]"
       and twn = "JStr ''Jane''" and twu = "JStr ''jane_d''" and tws = "''jane_d''"
       and li = "sample_profile ''https://api.linkedin.com/v2/me''"
       and lif = "JStr ''Jane''" and lifs = "''Jane''"
       and lil = "JStr ''Doe''" and lils = "''Doe''" and lii = "JStr ''li-7''"
       and ig = "sample_profile ''https://graph.instagram.com/me?fields=id,username''"
       and igu = "JStr ''jane.d''" and igs = "''jane.d''"
       and fb = "sample_profile ''https://graph.facebook.com/me?fields=id,name''"
       and fbn = "JStr ''Jane Doe''" and fbi = "JStr ''fb-7''"
       and tt = "sample_profile
          ''https://open-api.tiktok.com/user/info/?fields=open_id,union_id,avatar_url,display_name''"
       and ttd = "JObj [(''user'',
                JObj [(''open_id'', JStr ''tt-7''), (''display_name'', JStr ''Jane D'')])]"
       and ttu = "JObj [(''open_id'', JStr ''tt-7''), (''display_name'', JStr ''Jane D'')]"
       and ttn = "JStr ''Jane D''" and tti = "JStr ''tt-7''"]
  by (simp add: sample_env_def sample_profile_def js_or_def)

section \<open>The redirect checks\<close>

lemma handler_redirect_error:
  "read_redirect env = Inl e \<Longrightarrow>
   handleOAuthCallback env w = w\<lparr>status := error, message := error_message env e\<rparr>"
  by (simp add: handleOAuthCallback_def callback_try_def action_defs)

lemma handler_upsert_redirect_error:
  "read_redirect env = Inl e \<Longrightarrow>
   handleOAuthCallback_upsert env w = w\<lparr>status := error, message := error_message env e\<rparr>"
  by (simp add: handleOAuthCallback_upsert_def callback_try_upsert_def action_defs)

lemma read_redirect_missing:
  assumes "\<not> truthy_str (get_param (URLSearchParams (location_search env)) ''error'')"
    and "\<not> truthy_str (get_param (URLSearchParams (location_search env)) ''code'') \<or>
         \<not> truthy_str (get_param (URLSearchParams (location_search env)) ''state'')"
  shows "read_redirect env = Inl (Error ''Missing authorization code or state'')"
  using assms by (auto simp add: read_redirect_def Let_def)

lemma read_redirect_reported:
  assumes "truthy_str (get_param (URLSearchParams (location_search env)) ''error'')"
  shows "read_redirect env =
     Inl (Error (str_of (or_str (get_param (URLSearchParams (location_search env)) ''error_description'')
                                (get_param (URLSearchParams (location_search env)) ''error''))))"
  using assms by (simp add: read_redirect_def Let_def)

lemma or_str_truthy: "truthy_str b \<Longrightarrow> str_of (or_str a b) \<noteq> []"
  by (auto simp add: or_str_def str_of_def truthy_str_def split: option.splits)

text \<open>
  C6. When the redirect carries no \<open>error\<close> parameter and \<open>code\<close> or \<open>state\<close> is
  missing (absent, or present and empty), either copy of the handler ends in the
  state it started in but for \<open>status = error\<close> and the message: the list of calls,
  the stores and the table are untouched, so no session read, token exchange,
  profile fetch or table access took place.
\<close>

theorem missing_code_or_state:
  assumes "\<not> truthy_str (get_param (URLSearchParams (location_search env)) ''error'')"
    and "\<not> truthy_str (get_param (URLSearchParams (location_search env)) ''code'') \<or>
         \<not> truthy_str (get_param (URLSearchParams (location_search env)) ''state'')"
  shows "handleOAuthCallback env w =
           w\<lparr>status := error, message := ''Missing authorization code or state''\<rparr> \<and>
         handleOAuthCallback_upsert env w =
           w\<lparr>status := error, message := ''Missing authorization code or state''\<rparr>"
  using read_redirect_missing [OF assms]
  by (simp add: handler_redirect_error handler_upsert_redirect_error error_message_def)

theorem missing_code_or_state_witness:
  "get_param (URLSearchParams (location_search (sample_env\<lparr>location_search := ''?state=xyz''\<rparr>)))
     ''error'' = None \<and>
   get_param (URLSearchParams (location_search (sample_env\<lparr>location_search := ''?state=xyz''\<rparr>)))
     ''code'' = None \<and>
   handleOAuthCallback (sample_env\<lparr>location_search := ''?state=xyz''\<rparr>) sample_world =
     sample_world\<lparr>status := error, message := ''Missing authorization code or state''\<rparr> \<and>
   handleOAuthCallback_upsert (sample_env\<lparr>location_search := ''?state=xyz''\<rparr>) sample_world =
     sample_world\<lparr>status := error, message := ''Missing authorization code or state''\<rparr>"
proof -
  have q: "URLSearchParams ''?state=xyz'' = [(''state'', ''xyz'')]"
    by (simp add: URLSearchParams_def parse_pair_def form_decode_def)
  show ?thesis
    using missing_code_or_state [of "sample_env\<lparr>location_search := ''?state=xyz''\<rparr>" sample_world]
    by (simp add: q get_param_def truthy_str_def)
qed

text \<open>
  C7, as amended. When the redirect carries an \<open>error\<close> parameter with a non-empty
  value, either copy of the handler ends in the state it started in but for
  \<open>status = error\<close> and the message (the error description when it is non-empty,
  else the error code): no session read, token exchange, profile fetch or write
  is reached.
\<close>

theorem reported_error_short_circuits:
  assumes "truthy_str (get_param (URLSearchParams (location_search env)) ''error'')"
  shows "handleOAuthCallback env w =
           w\<lparr>status := error,
             message := str_of (or_str
               (get_param (URLSearchParams (location_search env)) ''error_description'')
               (get_param (URLSearchParams (location_search env)) ''error''))\<rparr> \<and>
         handleOAuthCallback_upsert env w =
           w\<lparr>status := error,
             message := str_of (or_str
               (get_param (URLSearchParams (location_search env)) ''error_description'')
               (get_param (URLSearchParams (location_search env)) ''error''))\<rparr>"
  using read_redirect_reported [OF assms] or_str_truthy [OF assms]
  by (simp add: handler_redirect_error handler_upsert_redirect_error error_message_def)

theorem reported_error_short_circuits_witness:
  "truthy_str (get_param (URLSearchParams (location_search
      (sample_env\<lparr>location_search := ''?error=access_denied&error_description=User+said+no''\<rparr>)))
      ''error'') \<and>
   handleOAuthCallback
     (sample_env\<lparr>location_search := ''?error=access_denied&error_description=User+said+no''\<rparr>)
     sample_world = sample_world\<lparr>status := error, message := ''User said no''\<rparr> \<and>
   handleOAuthCallback_upsert
     (sample_env\<lparr>location_search := ''?error=access_denied&error_description=User+said+no''\<rparr>)
     sample_world = sample_world\<lparr>status := error, message := ''User said no''\<rparr>"
proof -
  have q: "URLSearchParams ''?error=access_denied&error_description=User+said+no'' =
             [(''error'', ''access_denied''), (''error_description'', ''User said no'')]"
    by (simp add: URLSearchParams_def parse_pair_def form_decode_def)
  show ?thesis
    using reported_error_short_circuits
      [of "sample_env\<lparr>location_search := ''?error=access_denied&error_description=User+said+no''\<rparr>"
          sample_world]
    by (simp add: q get_param_def truthy_str_def or_str_def str_of_def)
qed

text \<open>
  C7, as stated, fails where the \<open>error\<close> parameter is present and empty: the test
  \<open>if (error)\<close> lets the redirect \<open>?error=&code=abc&state=xyz\<close> through, the session is
  read and the sample page load ends in \<open>success\<close>.
\<close>

theorem empty_error_counterexample:
  "get_param (URLSearchParams (location_search
      (sample_env\<lparr>location_search := ''?error=&code=abc&state=xyz''\<rparr>))) ''error'' = Some [] \<and>
   GetSession \<in> set (trace (handleOAuthCallback
      (sample_env\<lparr>location_search := ''?error=&code=abc&state=xyz''\<rparr>) sample_world)) \<and>
   status (handleOAuthCallback
      (sample_env\<lparr>location_search := ''?error=&code=abc&state=xyz''\<rparr>) sample_world) = success"
  by code_simp

section \<open>Session restoration and the stored snapshot\<close>


lemma restore_session_stored:
  assumes "getSession env = None"
    and "localStorage w (''oauth_supabase_session_'' @ p) = Some saved" and "saved \<noteq> []"
    and "JSON_parse env saved = Some parsed"
    and "get_prop parsed ''access_token'' = Inr a"
    and "get_prop parsed ''refresh_token'' = Inr r"
    and "setSession env (JObj [(''access_token'', a), (''refresh_token'', r)]) = Inr res"
  shows "restore_session env p w =
     ((case (if \<not> session_error res then data_user res else None) of
         None \<Rightarrow> Inl (Error
           ''You are not logged in. Please log in first and try connecting your Twitter account again.'')
       | Some u \<Rightarrow> Inr u),
      w\<lparr>localStorage := (localStorage w)(''oauth_supabase_session_'' @ p := None),
        trace := trace w @ [GetSession,
                            SetSession (JObj [(''access_token'', a), (''refresh_token'', r)]),
                            LocalRemove (''oauth_supabase_session_'' @ p)]\<rparr>)"
  using assms
  by (simp add: restore_session_def restore_saved_def call_getSession_def call_setSession_def
        local_get_def local_remove_def action_defs truthy_str_def str_of_def
      split: option.splits)

text \<open>The steps after the session step leave \<open>localStorage\<close> alone.\<close>

lemma exchange_localStorage [simp]:
  "localStorage (snd (call_exchangeCodeForToken env p c s w)) = localStorage w"
  by (simp add: call_exchangeCodeForToken_def action_defs split: sum.splits prod.splits)

lemma fetchAccountInfo_localStorage [simp]:
  "localStorage (snd (fetchAccountInfo env p tok w)) = localStorage w"
  by (simp add: fetchAccountInfo_def call_fetch_def action_defs
      split: option.splits fetch_result.splits sum.splits prod.splits)

lemma take_hints_localStorage [simp]:
  "localStorage (snd (take_hints p w)) = localStorage w"
  by (simp add: take_hints_def session_get_def session_remove_def action_defs)

lemma save_account_localStorage [simp]:
  "localStorage (snd (save_account env u p info td hint w)) = localStorage w"
  by (simp add: save_account_def db_select_def db_update_def db_insert_def expires_at_def now_iso_def
        read_clock_def action_defs
      split: option.splits sum.splits prod.splits)

lemma setters_localStorage [simp]:
  "localStorage (snd (setStatus s w)) = localStorage w"
  "localStorage (snd (setMessage m w)) = localStorage w"
  "localStorage (snd (setTimeout p ms w)) = localStorage w"
  by (simp_all add: setStatus_def setMessage_def setTimeout_def)

lemma and_then_localStorage:
  assumes "\<And>w. localStorage (snd (m w)) = localStorage w"
    and "\<And>x w. localStorage (snd (g x w)) = localStorage w"
  shows "localStorage (snd (and_then m g w)) = localStorage w"
proof (cases "m w")
  case (Pair r w')
  have "localStorage w' = localStorage w"
    using assms(1) [of w] Pair by simp
  then show ?thesis
    using Pair assms(2) by (cases r) (simp_all add: and_then_def)
qed

lemma and_then_localStorage_after:
  assumes "\<And>x w. localStorage (snd (g x w)) = localStorage w"
  shows "localStorage (snd (and_then m g w)) = localStorage (snd (m w))"
proof (cases "m w")
  case (Pair r w')
  then show ?thesis
    using assms by (cases r) (simp_all add: and_then_def)
qed

lemma callback_try_after_redirect:
  assumes "read_redirect env = Inr (code, state, p)"
  shows "callback_try env w =
     and_then (restore_session env p) (\<lambda>currentUser.
     and_then (setMessage (''Connecting to '' @ p @ ''...'')) (\<lambda>_.
     and_then (call_exchangeCodeForToken env p code state) (\<lambda>tokenData.
     and_then (fetchAccountInfo env p (token_data.access_token tokenData)) (\<lambda>accountInfo.
     and_then (take_hints p) (\<lambda>(storedUsername, storedDisplayName).
     and_then (save_account env currentUser p accountInfo tokenData storedDisplayName) (\<lambda>_.
     and_then (setStatus success) (\<lambda>_.
     and_then (setMessage (''Successfully connected your '' @ p @ '' account!'')) (\<lambda>_.
     setTimeout p 2000)))))))) w"
  using assms by (simp add: callback_try_def lift_def and_then_def)

lemma callback_try_localStorage:
  assumes "read_redirect env = Inr (code, state, p)"
  shows "localStorage (snd (callback_try env w)) = localStorage (snd (restore_session env p w))"
  by (simp add: callback_try_after_redirect [OF assms]
        and_then_localStorage_after and_then_localStorage split_def)

lemma handler_localStorage:
  "localStorage (handleOAuthCallback env w) = localStorage (snd (callback_try env w))"
  by (simp add: handleOAuthCallback_def split: prod.splits sum.splits)

text \<open>The upsert handler never removes the snapshot: it has no \<open>removeItem\<close>.\<close>

lemma restore_session_upsert_localStorage [simp]:
  "localStorage (snd (restore_session_upsert env p w)) = localStorage w"
  by (simp add: restore_session_upsert_def call_getSession_def call_setSession_def
        local_get_def action_defs
      split: option.splits sum.splits prod.splits)

lemma db_upsert_localStorage [simp]:
  "localStorage (snd (db_upsert env row w)) = localStorage w"
  by (simp add: db_upsert_def Let_def split: list.splits)

lemma clock_localStorage [simp]:
  "localStorage (snd (read_clock env w)) = localStorage w"
  "localStorage (snd (expires_at env td w)) = localStorage w"
  "localStorage (snd (now_iso env w)) = localStorage w"
  by (simp_all add: read_clock_def expires_at_def now_iso_def action_defs
      split: option.splits sum.splits prod.splits)

lemma save_account_upsert_localStorage [simp]:
  "localStorage (snd (save_account_upsert env s p info td w)) = localStorage w"
  unfolding save_account_upsert_def
  by (intro and_then_localStorage) (simp_all add: return_def throw_def)

lemma and_then_keeps:
  assumes "\<And>w. f (snd (m w)) = f w"
    and "\<And>x w. f (snd (g x w)) = f w"
  shows "f (snd (and_then m g w)) = f w"
proof (cases "m w")
  case (Pair r w')
  have "f w' = f w"
    using assms(1) [of w] Pair by simp
  then show ?thesis
    using Pair assms(2) by (cases r) (simp_all add: and_then_def)
qed

lemma success_key_differs:
  "''oauth_supabase_session_'' @ q \<noteq> ''oauth_success_'' @ p"
  by simp

lemma local_set_success_snapshot:
  "localStorage (snd (local_set (''oauth_success_'' @ p) v w)) (''oauth_supabase_session_'' @ q) =
   localStorage w (''oauth_supabase_session_'' @ q)"
  using success_key_differs [of q p] by (simp add: local_set_def del: append.simps)

lemma upsert_keeps_snapshot:
  "localStorage (handleOAuthCallback_upsert env w) (''oauth_supabase_session_'' @ q) =
   localStorage w (''oauth_supabase_session_'' @ q)"
proof -
  have body: "localStorage (snd (callback_try_upsert env w)) (''oauth_supabase_session_'' @ q) =
        localStorage w (''oauth_supabase_session_'' @ q)"
    unfolding callback_try_upsert_def split_def
    by (intro and_then_keeps [where f = "\<lambda>w. localStorage w (''oauth_supabase_session_'' @ q)"])
       (simp_all add: lift_def local_set_success_snapshot del: append.simps)
  show ?thesis
  proof (cases "callback_try_upsert env w")
    case (Pair r w')
    then show ?thesis
      using body by (cases r) (simp_all add: handleOAuthCallback_upsert_def del: append.simps)
  qed
qed

lemma sample_redirect: "read_redirect sample_env = Inr (''abc'', ''xyz'', ''twitter'')"
  by code_simp

text \<open>
  C4, as amended. In the handle-aware handler, when there is no active session and
  the snapshot under \<open>oauth_supabase_session_platform\<close> parses and \<open>setSession\<close>
  returns, the snapshot is gone from storage when the handler ends, whether
  \<open>setSession\<close> restored a user or reported an error.
\<close>

theorem snapshot_removed:
  assumes "read_redirect env = Inr (code, state, p)"
    and "getSession env = None"
    and "localStorage w (''oauth_supabase_session_'' @ p) = Some saved" and "saved \<noteq> []"
    and "JSON_parse env saved = Some parsed"
    and "get_prop parsed ''access_token'' = Inr a"
    and "get_prop parsed ''refresh_token'' = Inr r"
    and "setSession env (JObj [(''access_token'', a), (''refresh_token'', r)]) = Inr res"
  shows "localStorage (handleOAuthCallback env w) (''oauth_supabase_session_'' @ p) = None"
  using restore_session_stored [OF assms(2-8)] callback_try_localStorage [OF assms(1), of w]
  by (simp add: handler_localStorage)

theorem snapshot_removed_witness:
  "read_redirect sample_env = Inr (''abc'', ''xyz'', ''twitter'') \<and>
   getSession sample_env = None \<and>
   localStorage sample_world ''oauth_supabase_session_twitter'' = Some ''snapshot'' \<and>
   JSON_parse sample_env ''snapshot'' = Some sample_snapshot \<and>
   localStorage (handleOAuthCallback sample_env sample_world)
     ''oauth_supabase_session_twitter'' = None"
  using snapshot_removed [of sample_env "''abc''" "''xyz''" "''twitter''" sample_world
      "''snapshot''" sample_snapshot "JStr ''sa''" "JStr ''sr''"
      "\<lparr>data_user = Some \<lparr>uid = ''u1''\<rparr>,
        data_session = Some \<lparr>session_user = \<lparr>uid = ''u1''\<rparr>\<rparr>,
        session_error = False\<rparr>"]
  by (simp add: sample_redirect) (simp add: sample_env_def sample_world_def sample_snapshot_def)

text \<open>
  C4, as stated, fails on a snapshot that does not parse: \<open>JSON.parse\<close> throws
  inside the inner \<open>try\<close>, the \<open>catch\<close> only logs, and \<open>removeItem\<close> is not reached.
  The snapshot is still in storage when the handler ends.
\<close>

theorem malformed_snapshot_counterexample:
  "getSession (sample_env\<lparr>JSON_parse := (\<lambda>s. None)\<rparr>) = None \<and>
   localStorage sample_world ''oauth_supabase_session_twitter'' = Some ''snapshot'' \<and>
   localStorage (handleOAuthCallback (sample_env\<lparr>JSON_parse := (\<lambda>s. None)\<rparr>) sample_world)
     ''oauth_supabase_session_twitter'' = Some ''snapshot''"
  by code_simp

section \<open>The table: one record per key\<close>







lemma patch_key [simp]: "account_key (reconnect_patch td e t r) = account_key r"
  by (simp add: account_key_def reconnect_patch_def)

lemma patch_identity [simp]: "identity_columns (reconnect_patch td e t r) = identity_columns r"
  by (simp add: identity_columns_def reconnect_patch_def)

lemma patch_keys_comp [simp]:
  "account_key \<circ> (\<lambda>r. if row_id r = i then reconnect_patch td e t r else r) = account_key"
  by (auto simp add: fun_eq_iff)

lemma patch_identity_comp [simp]:
  "identity_columns \<circ> (\<lambda>r. if row_id r = i then reconnect_patch td e t r else r) = identity_columns"
  by (auto simp add: fun_eq_iff)





lemma restore_session_table [simp]:
  "social_accounts (snd (restore_session env p w)) = social_accounts w"
  by (simp add: restore_session_def restore_saved_def call_getSession_def call_setSession_def
        local_get_def local_remove_def action_defs
      split: option.splits sum.splits prod.splits)

lemma exchange_table [simp]:
  "social_accounts (snd (call_exchangeCodeForToken env p c s w)) = social_accounts w"
  by (simp add: call_exchangeCodeForToken_def action_defs split: sum.splits prod.splits)

lemma fetchAccountInfo_table [simp]:
  "social_accounts (snd (fetchAccountInfo env p tok w)) = social_accounts w"
  by (simp add: fetchAccountInfo_def call_fetch_def action_defs
      split: option.splits fetch_result.splits sum.splits prod.splits)

lemma take_hints_table [simp]:
  "social_accounts (snd (take_hints p w)) = social_accounts w"
  by (simp add: take_hints_def session_get_def session_remove_def action_defs)

lemma setters_table [simp]:
  "social_accounts (snd (setStatus s w)) = social_accounts w"
  "social_accounts (snd (setMessage m w)) = social_accounts w"
  "social_accounts (snd (setTimeout p ms w)) = social_accounts w"
  "social_accounts (snd (lift v w)) = social_accounts w"
  by (simp_all add: setStatus_def setMessage_def setTimeout_def lift_def)










lemma restore_session_upsert_table [simp]:
  "social_accounts (snd (restore_session_upsert env p w)) = social_accounts w"
  by (simp add: restore_session_upsert_def call_getSession_def call_setSession_def
        local_get_def action_defs
      split: option.splits sum.splits prod.splits)

lemma clock_table [simp]:
  "social_accounts (snd (read_clock env w)) = social_accounts w"
  "social_accounts (snd (expires_at env td w)) = social_accounts w"
  "social_accounts (snd (now_iso env w)) = social_accounts w"
  "social_accounts (snd (local_set k v w)) = social_accounts w"
  by (simp_all add: read_clock_def expires_at_def now_iso_def local_set_def action_defs
      split: option.splits sum.splits prod.splits)






lemma sample_connected_rows:
  "social_accounts sample_connected =
     [\<lparr>row_id = 1, user_id = ''u1'', platform = ''twitter'',
       account_name = Some ''Jane'', account_handle = Some ''@jane_d'',
       access_token = ''tok'', refresh_token = None,
       token_expires_at = Some (ISO 1700003600000), is_connected = True,
       updated_at = None\<rparr>]"
  by (simp add: sample_connected_def)

lemma sample_connected_table:
  "social_accounts (handleOAuthCallback sample_env sample_world) = social_accounts sample_connected"
  by code_simp

text \<open>
  C9. In the handle-aware handler, when the lookup finds the record for
  (user, platform, handle), the write that follows leaves \<open>id\<close>, \<open>user_id\<close>,
  \<open>platform\<close>, \<open>account_name\<close> and \<open>account_handle\<close> of every row as they were and
  adds no row (what it may change are the other five columns: \<open>access_token\<close>,
  \<open>refresh_token\<close>, \<open>token_expires_at\<close>, \<open>is_connected\<close>, \<open>updated_at\<close>), and the
  rows with another \<open>id\<close> are not changed at all. The lookup finds the record
  when it is answered and r is the one row whose \<open>account_handle\<close> holds the text
  s of the handle.
\<close>

theorem reconnect_update_frame:
  assumes "\<not> select_error env"
    and "template (handle info) = Inr s"
    and "filter (\<lambda>r. user_id r = uid u \<and> platform r = p \<and> account_handle r = Some s)
           (social_accounts w) = [r]"
  shows "map identity_columns (social_accounts (snd (save_account env u p info td hint w))) =
           map identity_columns (social_accounts w) \<and>
         (\<forall>i < length (social_accounts w).
            row_id (social_accounts w ! i) \<noteq> row_id r \<longrightarrow>
            social_accounts (snd (save_account env u p info td hint w)) ! i = social_accounts w ! i)"
  using assms
  by (auto simp add: save_account_def db_select_def db_update_def expires_at_def now_iso_def
        read_clock_def action_defs maybeSingle_def
      split: option.splits sum.splits prod.splits)

theorem reconnect_update_frame_witness:
  "\<not> select_error sample_env_again \<and>
   template (handle \<lparr>name = JStr ''Jane Renamed'', handle = JStr ''@jane_d''\<rparr>) = Inr ''@jane_d'' \<and>
   filter (\<lambda>r. user_id r = uid \<lparr>uid = ''u1''\<rparr> \<and> platform r = ''twitter'' \<and>
                account_handle r = Some ''@jane_d'')
          (social_accounts sample_connected) =
     [\<lparr>row_id = 1, user_id = ''u1'', platform = ''twitter'',
       account_name = Some ''Jane'', account_handle = Some ''@jane_d'',
       access_token = ''tok'', refresh_token = None,
       token_expires_at = Some (ISO 1700003600000), is_connected = True,
       updated_at = None\<rparr>] \<and>
   map identity_columns (social_accounts (snd (save_account sample_env_again \<lparr>uid = ''u1''\<rparr>
      ''twitter'' \<lparr>name = JStr ''Jane Renamed'', handle = JStr ''@jane_d''\<rparr>
      \<lparr>token_data.access_token = ''tok2'', token_data.refresh_token = Some ''ref2'',
        expires_in = None\<rparr> None sample_connected))) =
     [(1, ''u1'', ''twitter'', Some ''Jane'', Some ''@jane_d'')]"
  using reconnect_update_frame
    [of sample_env_again "\<lparr>name = JStr ''Jane Renamed'', handle = JStr ''@jane_d''\<rparr>"
        "''@jane_d''" "\<lparr>uid = ''u1''\<rparr>" "''twitter''" sample_connected
        "\<lparr>row_id = 1, user_id = ''u1'', platform = ''twitter'',
          account_name = Some ''Jane'', account_handle = Some ''@jane_d'',
          access_token = ''tok'', refresh_token = None,
          token_expires_at = Some (ISO 1700003600000), is_connected = True,
          updated_at = None\<rparr>"
        "\<lparr>token_data.access_token = ''tok2'', token_data.refresh_token = Some ''ref2'',
          expires_in = None\<rparr>" None]
  by (simp add: sample_connected_rows sample_env_again_def sample_env_def identity_columns_def)


section \<open>The display hints\<close>

text \<open>
  The session step leaves \<open>sessionStorage\<close> and the clock alone and does not read
  \<open>sessionStorage\<close>; the expiry depends on the state only through the clock.
\<close>

lemma restore_session_frame [simp]:
  "sessionStorage (snd (restore_session env p w)) = sessionStorage w"
  "ticks (snd (restore_session env p w)) = ticks w"
  by (simp_all add: restore_session_def restore_saved_def call_getSession_def call_setSession_def
        local_get_def local_remove_def action_defs
      split: option.splits sum.splits prod.splits)

lemma restore_session_other_hints:
  "fst (restore_session env p (w\<lparr>sessionStorage := s\<rparr>)) = fst (restore_session env p w)"
  "social_accounts (snd (restore_session env p (w\<lparr>sessionStorage := s\<rparr>))) = social_accounts w"
  by (simp_all add: restore_session_def restore_saved_def call_getSession_def call_setSession_def
        local_get_def local_remove_def action_defs
      split: option.splits sum.splits prod.splits)

lemma expires_at_ticks:
  "ticks w' = ticks w \<Longrightarrow> fst (expires_at env td w') = fst (expires_at env td w)"
  by (simp add: expires_at_def read_clock_def action_defs
      split: option.splits sum.splits prod.splits)

text \<open>
  A page load whose redirect, session, token exchange and profile fetch succeed
  reaches the hints with the user u, the tokens and the profile in hand.
\<close>

lemma callback_try_to_hints:
  assumes "read_redirect env = Inr (code, state, p)"
    and "restore_session env p w = (Inr u, w1)"
    and "exchangeCodeForToken env p code state = Inr td"
    and "profile_url p = Some url"
    and "fetch env url [(''Authorization'', ''Bearer '' @ token_data.access_token td)] =
           Response True (Some data)"
    and "extract_account p data = Inr info"
  shows "callback_try env w =
     and_then (take_hints p) (\<lambda>(storedUsername, storedDisplayName).
     and_then (save_account env u p info td storedDisplayName) (\<lambda>_.
     and_then (setStatus success) (\<lambda>_.
     and_then (setMessage (''Successfully connected your '' @ p @ '' account!'')) (\<lambda>_.
     setTimeout p 2000))))
       (w1\<lparr>message := ''Connecting to '' @ p @ ''...'',
           trace := trace w1 @
             [ExchangeCode p code state,
              Fetch url [(''Authorization'', ''Bearer '' @ token_data.access_token td)]]\<rparr>)"
  using assms(2,3,6)
  by (simp add: callback_try_after_redirect [OF assms(1)] and_then_def setMessage_def
        call_exchangeCodeForToken_def emit_def lift_def fetch_ok [OF assms(4,5)])

lemma first_connect_run:
  assumes "template (handle info) = Inr s"
    and "filter (\<lambda>r. user_id r = uid u \<and> platform r = p \<and> account_handle r = Some s)
           (social_accounts w) = []"
    and "insert_error env = None"
    and "fst (expires_at env td w) = Inr e"
  shows "social_accounts
           (snd (and_then (take_hints p) (\<lambda>(storedUsername, storedDisplayName).
                 and_then (save_account env u p info td storedDisplayName) (\<lambda>_.
                 and_then (setStatus success) (\<lambda>_.
                 and_then (setMessage msg) (\<lambda>_.
                 setTimeout p 2000)))) w)) =
         social_accounts w @
           [(new_row env u p
               (if truthy_str (sessionStorage w (''oauth_display_name_'' @ p))
                then JStr (str_of (sessionStorage w (''oauth_display_name_'' @ p)))
                else name info)
               (handle info) td e)\<lparr>row_id := fresh_id (social_accounts w)\<rparr>]"
    and "trace
           (snd (and_then (take_hints p) (\<lambda>(storedUsername, storedDisplayName).
                 and_then (save_account env u p info td storedDisplayName) (\<lambda>_.
                 and_then (setStatus success) (\<lambda>_.
                 and_then (setMessage msg) (\<lambda>_.
                 setTimeout p 2000)))) w)) =
         trace w @ [SessionRemove (''oauth_username_'' @ p),
                    SessionRemove (''oauth_display_name_'' @ p),
                    DbSelect (uid u) p s, DbInsert, SetTimeout 2000]"
    and "sessionStorage
           (snd (and_then (take_hints p) (\<lambda>(storedUsername, storedDisplayName).
                 and_then (save_account env u p info td storedDisplayName) (\<lambda>_.
                 and_then (setStatus success) (\<lambda>_.
                 and_then (setMessage msg) (\<lambda>_.
                 setTimeout p 2000)))) w))
           (''oauth_username_'' @ p) = None"
    and "sessionStorage
           (snd (and_then (take_hints p) (\<lambda>(storedUsername, storedDisplayName).
                 and_then (save_account env u p info td storedDisplayName) (\<lambda>_.
                 and_then (setStatus success) (\<lambda>_.
                 and_then (setMessage msg) (\<lambda>_.
                 setTimeout p 2000)))) w))
           (''oauth_display_name_'' @ p) = None"
    and "fst (and_then (take_hints p) (\<lambda>(storedUsername, storedDisplayName).
                 and_then (save_account env u p info td storedDisplayName) (\<lambda>_.
                 and_then (setStatus success) (\<lambda>_.
                 and_then (setMessage msg) (\<lambda>_.
                 setTimeout p 2000)))) w) = Inr ()"
    and "status
           (snd (and_then (take_hints p) (\<lambda>(storedUsername, storedDisplayName).
                 and_then (save_account env u p info td storedDisplayName) (\<lambda>_.
                 and_then (setStatus success) (\<lambda>_.
                 and_then (setMessage msg) (\<lambda>_.
                 setTimeout p 2000)))) w)) = success"
  using assms
  by (auto simp add: take_hints_def session_get_def session_remove_def
        save_account_def db_select_def db_insert_def expires_at_def
        setStatus_def setMessage_def setTimeout_def
        read_clock_def action_defs maybeSingle_def
      split: option.splits sum.splits prod.splits if_splits)

lemma handler_of_try:
  "fst (callback_try env w) = Inr () \<Longrightarrow> handleOAuthCallback env w = snd (callback_try env w)"
  by (cases "callback_try env w") (auto simp add: handleOAuthCallback_def split: sum.splits)

lemma first_connect_handler:
  assumes "read_redirect env = Inr (code, state, p)"
    and "fst (restore_session env p w) = Inr u"
    and "exchangeCodeForToken env p code state = Inr td"
    and "profile_url p = Some url"
    and "fetch env url [(''Authorization'', ''Bearer '' @ token_data.access_token td)] =
           Response True (Some data)"
    and "extract_account p data = Inr info"
    and "template (handle info) = Inr s"
    and "filter (\<lambda>r. user_id r = uid u \<and> platform r = p \<and> account_handle r = Some s)
           (social_accounts w) = []"
    and "insert_error env = None"
    and "fst (expires_at env td w) = Inr e"
  shows "social_accounts (handleOAuthCallback env w) =
         social_accounts w @
           [(new_row env u p
               (if truthy_str (sessionStorage w (''oauth_display_name_'' @ p))
                then JStr (str_of (sessionStorage w (''oauth_display_name_'' @ p)))
                else name info)
               (handle info) td e)\<lparr>row_id := fresh_id (social_accounts w)\<rparr>]"
    and "trace (handleOAuthCallback env w) =
         trace (snd (restore_session env p w)) @
           [ExchangeCode p code state,
            Fetch url [(''Authorization'', ''Bearer '' @ token_data.access_token td)],
            SessionRemove (''oauth_username_'' @ p),
            SessionRemove (''oauth_display_name_'' @ p),
            DbSelect (uid u) p s, DbInsert, SetTimeout 2000]"
    and "sessionStorage (handleOAuthCallback env w) (''oauth_username_'' @ p) = None"
    and "sessionStorage (handleOAuthCallback env w) (''oauth_display_name_'' @ p) = None"
    and "status (handleOAuthCallback env w) = success"
proof -
  obtain w1 where restored: "restore_session env p w = (Inr u, w1)"
    using assms(2) by (cases "restore_session env p w") simp
  let ?w0 = "w1\<lparr>message := ''Connecting to '' @ p @ ''...'',
               trace := trace w1 @
                 [ExchangeCode p code state,
                  Fetch url [(''Authorization'', ''Bearer '' @ token_data.access_token td)]]\<rparr>"
  have table: "social_accounts w1 = social_accounts w"
    using restore_session_table [of env p w] restored by simp
  have hints: "sessionStorage w1 = sessionStorage w"
    using restore_session_frame(1) [of env p w] restored by simp
  have clock: "ticks w1 = ticks w"
    using restore_session_frame(2) [of env p w] restored by simp
  have none: "filter (\<lambda>r. user_id r = uid u \<and> platform r = p \<and> account_handle r = Some s)
           (social_accounts ?w0) = []"
    using assms(8) table by simp
  have expiry: "fst (expires_at env td ?w0) = Inr e"
    using assms(10) expires_at_ticks [of ?w0 w env td] clock by simp
  note run = first_connect_run [OF assms(7) none assms(9) expiry,
      of "''Successfully connected your '' @ p @ '' account!''"]
  note body = callback_try_to_hints [OF assms(1) restored assms(3-6)]
  have ran: "handleOAuthCallback env w = snd (callback_try env w)"
    using run(5) by (intro handler_of_try) (simp only: body)
  show "social_accounts (handleOAuthCallback env w) =
         social_accounts w @
           [(new_row env u p
               (if truthy_str (sessionStorage w (''oauth_display_name_'' @ p))
                then JStr (str_of (sessionStorage w (''oauth_display_name_'' @ p)))
                else name info)
               (handle info) td e)\<lparr>row_id := fresh_id (social_accounts w)\<rparr>]"
    using run(1) table hints by (simp only: ran body) simp
  show "trace (handleOAuthCallback env w) =
         trace (snd (restore_session env p w)) @
           [ExchangeCode p code state,
            Fetch url [(''Authorization'', ''Bearer '' @ token_data.access_token td)],
            SessionRemove (''oauth_username_'' @ p),
            SessionRemove (''oauth_display_name_'' @ p),
            DbSelect (uid u) p s, DbInsert, SetTimeout 2000]"
    using run(2) restored by (simp only: ran body) simp
  show "sessionStorage (handleOAuthCallback env w) (''oauth_username_'' @ p) = None"
    using run(3) by (simp only: ran body)
  show "sessionStorage (handleOAuthCallback env w) (''oauth_display_name_'' @ p) = None"
    using run(4) by (simp only: ran body)
  show "status (handleOAuthCallback env w) = success"
    using run(6) by (simp only: ran body)
qed


lemma hint_keys_differ: "''oauth_username_'' @ p \<noteq> ''oauth_display_name_'' @ p"
  by simp

text \<open>
  C10, as amended. In the handle-aware handler, on a page load that reaches the
  write, finds no record for (user, platform, handle) and has its insert accepted,
  \<open>handleOAuthCallback\<close> adds one row, whose \<open>account_name\<close> is sent as the
  display hint stored under \<open>oauth_display_name_platform\<close> when that hint is a
  non-empty string and as the fetched profile name otherwise. The table the
  handler leaves is the same whatever is stored under \<open>oauth_username_platform\<close>.
  Both hints are gone from \<open>sessionStorage\<close> when the handler ends, and in the
  list of calls both removals come before the lookup and the insert.
\<close>

theorem first_connect_account_name:
  assumes "read_redirect env = Inr (code, state, p)"
    and "fst (restore_session env p w) = Inr u"
    and "exchangeCodeForToken env p code state = Inr td"
    and "profile_url p = Some url"
    and "fetch env url [(''Authorization'', ''Bearer '' @ token_data.access_token td)] =
           Response True (Some data)"
    and "extract_account p data = Inr info"
    and "template (handle info) = Inr s"
    and "filter (\<lambda>r. user_id r = uid u \<and> platform r = p \<and> account_handle r = Some s)
           (social_accounts w) = []"
    and "insert_error env = None"
    and "fst (expires_at env td w) = Inr e"
  shows "social_accounts (handleOAuthCallback env w) =
           social_accounts w @
             [(new_row env u p
                 (if truthy_str (sessionStorage w (''oauth_display_name_'' @ p))
                  then JStr (str_of (sessionStorage w (''oauth_display_name_'' @ p)))
                  else name info)
                 (handle info) td e)\<lparr>row_id := fresh_id (social_accounts w)\<rparr>] \<and>
         social_accounts (handleOAuthCallback env
             (w\<lparr>sessionStorage := (sessionStorage w)(''oauth_username_'' @ p := v)\<rparr>)) =
           social_accounts (handleOAuthCallback env w) \<and>
         trace (handleOAuthCallback env w) =
           trace (snd (restore_session env p w)) @
             [ExchangeCode p code state,
              Fetch url [(''Authorization'', ''Bearer '' @ token_data.access_token td)],
              SessionRemove (''oauth_username_'' @ p),
              SessionRemove (''oauth_display_name_'' @ p),
              DbSelect (uid u) p s, DbInsert, SetTimeout 2000] \<and>
         sessionStorage (handleOAuthCallback env w) (''oauth_username_'' @ p) = None \<and>
         sessionStorage (handleOAuthCallback env w) (''oauth_display_name_'' @ p) = None"
proof -
  let ?w = "w\<lparr>sessionStorage := (sessionStorage w)(''oauth_username_'' @ p := v)\<rparr>"
  have restored: "fst (restore_session env p ?w) = Inr u"
    using assms(2) by (simp only: restore_session_other_hints)
  have none: "filter (\<lambda>r. user_id r = uid u \<and> platform r = p \<and> account_handle r = Some s)
          (social_accounts ?w) = []"
    using assms(8) by simp
  have expiry: "fst (expires_at env td ?w) = Inr e"
    using assms(10) expires_at_ticks [of ?w w env td] by simp
  have same_hint: "sessionStorage ?w (''oauth_display_name_'' @ p) =
      sessionStorage w (''oauth_display_name_'' @ p)"
    using hint_keys_differ [of p] by (simp del: append.simps)
  have "social_accounts (handleOAuthCallback env ?w) =
           social_accounts ?w @
             [(new_row env u p
                 (if truthy_str (sessionStorage ?w (''oauth_display_name_'' @ p))
                  then JStr (str_of (sessionStorage ?w (''oauth_display_name_'' @ p)))
                  else name info)
                 (handle info) td e)\<lparr>row_id := fresh_id (social_accounts ?w)\<rparr>]"
    by (rule first_connect_handler(1) [OF assms(1) restored assms(3-7) none assms(9) expiry])
  then have other: "social_accounts (handleOAuthCallback env ?w) =
           social_accounts w @
             [(new_row env u p
                 (if truthy_str (sessionStorage w (''oauth_display_name_'' @ p))
                  then JStr (str_of (sessionStorage w (''oauth_display_name_'' @ p)))
                  else name info)
                 (handle info) td e)\<lparr>row_id := fresh_id (social_accounts w)\<rparr>]"
    by (simp only: same_hint) simp
  show ?thesis
    using first_connect_handler(1-4) [OF assms] other by simp
qed

lemma sample_hinted_session:
  "fst (restore_session sample_env ''twitter'' sample_hinted) = Inr \<lparr>uid = ''u1''\<rparr>"
  "trace (snd (restore_session sample_env ''twitter'' sample_hinted)) =
     [GetSession, SetSession sample_snapshot, LocalRemove ''oauth_supabase_session_twitter'']"
  by (simp_all add: restore_session_def restore_saved_def call_getSession_def call_setSession_def
        local_get_def local_remove_def action_defs truthy_str_def str_of_def
        sample_env_def sample_hinted_def sample_world_def sample_snapshot_def)

lemma sample_twitter_profile:
  "extract_account ''twitter'' (sample_profile ''https://api.twitter.com/2/users/me'') =
     Inr \<lparr>name = JStr ''Jane'', handle = JStr ''@jane_d''\<rparr>"
  by (simp add: sample_profile_def extract_account_def extract_twitter_def bind_sum_def)

theorem first_connect_account_name_witness:
  "read_redirect sample_env = Inr (''abc'', ''xyz'', ''twitter'') \<and>
   fst (restore_session sample_env ''twitter'' sample_hinted) = Inr \<lparr>uid = ''u1''\<rparr> \<and>
   social_accounts sample_hinted = [] \<and>
   insert_error sample_env = None \<and>
   sessionStorage sample_hinted ''oauth_username_twitter'' = Some ''jd'' \<and>
   sessionStorage sample_hinted ''oauth_display_name_twitter'' = Some ''Janey'' \<and>
   map account_name (social_accounts (handleOAuthCallback sample_env sample_hinted)) =
     [Some ''Janey''] \<and>
   trace (handleOAuthCallback sample_env sample_hinted) =
     [GetSession, SetSession sample_snapshot, LocalRemove ''oauth_supabase_session_twitter'',
      ExchangeCode ''twitter'' ''abc'' ''xyz'',
      Fetch ''https://api.twitter.com/2/users/me'' [(''Authorization'', ''Bearer tok'')],
      SessionRemove ''oauth_username_twitter'', SessionRemove ''oauth_display_name_twitter'',
      DbSelect ''u1'' ''twitter'' ''@jane_d'', DbInsert, SetTimeout 2000] \<and>
   sessionStorage (handleOAuthCallback sample_env sample_hinted) ''oauth_username_twitter'' =
     None \<and>
   sessionStorage (handleOAuthCallback sample_env sample_hinted) ''oauth_display_name_twitter'' =
     None"
  using first_connect_account_name
    [of sample_env "''abc''" "''xyz''" "''twitter''" sample_hinted "\<lparr>uid = ''u1''\<rparr>"
        "\<lparr>token_data.access_token = ''tok'', token_data.refresh_token = None,
          expires_in = Some 3600\<rparr>"
        "''https://api.twitter.com/2/users/me''"
        "sample_profile ''https://api.twitter.com/2/users/me''"
        "\<lparr>name = JStr ''Jane'', handle = JStr ''@jane_d''\<rparr>" "''@jane_d''"
        "Some (ISO 1700003600000)" None]
  by (simp add: sample_redirect sample_hinted_session sample_twitter_profile profile_url_def)
     (simp add: sample_hinted_def sample_world_def sample_env_def expires_at_def read_clock_def
        toISOString_def action_defs truthy_str_def str_of_def new_row_def column_value_def)

text \<open>
  C10, as stated, fails where the display hint is present and empty:
  \<open>storedDisplayName || accountInfo.name\<close> then takes the fetched name. (The
  username hint stored beside it plays no part.)
\<close>

theorem empty_hint_counterexample:
  "sessionStorage
     (sample_world\<lparr>sessionStorage :=
        [''oauth_username_twitter'' \<mapsto> ''jd'', ''oauth_display_name_twitter'' \<mapsto> []]\<rparr>)
     ''oauth_display_name_twitter'' = Some [] \<and>
   map account_name (social_accounts (handleOAuthCallback sample_env
      (sample_world\<lparr>sessionStorage :=
         [''oauth_username_twitter'' \<mapsto> ''jd'', ''oauth_display_name_twitter'' \<mapsto> []]\<rparr>))) =
     [Some ''Jane'']"
  by code_simp


section \<open>Reconnecting\<close>














text \<open>
  What the two assumptions leave out, on the sample: a lookup that reports an
  error followed by an insert the table accepts gives a second row for the key,
  where a refused insert leaves the one row; and a profile without \<open>id\<close> gives
  the handle \<open>undefined\<close>, which the lookup asks for as the text "undefined" and
  the insert leaves out of the row, so the row stored before is not found.
\<close>

lemma failed_lookup_accepted_insert:
  "one_per_key (social_accounts sample_connected) \<and>
   status (handleOAuthCallback (sample_env_again\<lparr>select_error := True\<rparr>) sample_connected) =
     success \<and>
   map account_key (social_accounts
      (handleOAuthCallback (sample_env_again\<lparr>select_error := True\<rparr>) sample_connected)) =
     [(''u1'', ''twitter'', Some ''@jane_d''), (''u1'', ''twitter'', Some ''@jane_d'')] \<and>
   map account_key (social_accounts
      (handleOAuthCallback
         (sample_env_again\<lparr>select_error := True, insert_error := Some ''duplicate key''\<rparr>)
         sample_connected)) =
     [(''u1'', ''twitter'', Some ''@jane_d'')]"
  by code_simp

lemma undefined_handle_not_found:
  "map account_key (social_accounts sample_no_id) = [(''u1'', ''linkedin'', None)] \<and>
   status (handleOAuthCallback sample_env_no_id sample_no_id) = success \<and>
   DbSelect ''u1'' ''linkedin'' ''undefined'' \<in>
     set (trace (handleOAuthCallback sample_env_no_id sample_no_id)) \<and>
   map account_key (social_accounts (handleOAuthCallback sample_env_no_id sample_no_id)) =
     [(''u1'', ''linkedin'', None), (''u1'', ''linkedin'', None)]"
  by code_simp

section \<open>After success\<close>

lemma on_timeout_trace:
  "trace (on_timeout env p w) =
     trace w @ (if window_opener env
                then [WindowClose, PostMessage ''oauth_success'' p (location_origin env)]
                else [WindowClose])"
  by (simp add: on_timeout_def action_defs)

lemma on_timeout_upsert_trace:
  "trace (on_timeout_upsert env p w) =
     trace w @ (if window_opener env
                then [PostMessage ''oauth_success'' p (location_origin env), WindowClose]
                else [Navigate ''/''])"
  by (simp add: on_timeout_upsert_def action_defs)

text \<open>
  C5. The property: on success, after the display delay, the controller posts the
  completion message \<open>{type: "oauth_success", platform}\<close> to the opener, when
  there is one, and then closes itself; without an opener it navigates to the
  application root. The closure the upsert copy hands to \<open>setTimeout\<close> does this.
  The closure of the handle-aware handler closes the window first and posts
  second, and without an opener it only closes: it never navigates. Both
  closures, on the sample page load (which ends in \<open>success\<close> with the timeout of
  2000 ms pending), with and without an opener:
\<close>

theorem close_before_post_no_navigation:
  "status (handleOAuthCallback (sample_env\<lparr>window_opener := False\<rparr>) sample_world) = success \<and>
   timers (handleOAuthCallback (sample_env\<lparr>window_opener := False\<rparr>) sample_world) =
     [(2000, ''twitter'')] \<and>
   trace (on_timeout (sample_env\<lparr>window_opener := False\<rparr>) ''twitter'' sample_world) =
     [WindowClose] \<and>
   trace (on_timeout sample_env ''twitter'' sample_world) =
     [WindowClose, PostMessage ''oauth_success'' ''twitter'' ''https://app.example''] \<and>
   trace (on_timeout_upsert (sample_env\<lparr>window_opener := False\<rparr>) ''twitter'' sample_world) =
     [Navigate ''/''] \<and>
   trace (on_timeout_upsert sample_env ''twitter'' sample_world) =
     [PostMessage ''oauth_success'' ''twitter'' ''https://app.example'', WindowClose]"
  by code_simp

section \<open>The scenario of the specification\<close>

lemma read_redirect_scenario:
  assumes "location_search env = ''?code=abc&state=xyz''"
    and "location_pathname env = ''/oauth/callback/twitter''"
  shows "read_redirect env = Inr (''abc'', ''xyz'', ''twitter'')"
proof -
  have "URLSearchParams ''?code=abc&state=xyz'' = [(''code'', ''abc''), (''state'', ''xyz'')]"
    by (simp add: URLSearchParams_def parse_pair_def form_decode_def)
  moreover have "split_on CHR ''/'' ''/oauth/callback/twitter'' = [[], ''oauth'', ''callback'', ''twitter'']"
    by simp
  ultimately show ?thesis
    using assms
    by (simp add: read_redirect_def get_param_def truthy_str_def str_of_def)
qed

text \<open>
  C2. The scenario of the specification, in the handle-aware handler: the redirect
  \<open>?code=abc&state=xyz\<close> on \<open>/oauth/callback/twitter\<close>, no active session and a
  stored snapshot that \<open>setSession\<close> turns into the user u, the token exchange
  returning \<open>{access_token: "tok", expires_in: 3600}\<close>, the Twitter profile
  \<open>{data: {name: "Jane", username: "jane_d"}}\<close>. Started where no record for
  (u, twitter, @jane_d) exists and no display hint is stored, and with an insert
  that succeeds, the handler adds the row with platform \<open>twitter\<close>, account name
  \<open>Jane\<close>, handle \<open>@jane_d\<close>, \<open>is_connected = true\<close>, the token and its expiry one
  hour after the clock reading, and ends in \<open>success\<close>.
\<close>

theorem twitter_scenario:
  assumes "location_search env = ''?code=abc&state=xyz''"
    and "location_pathname env = ''/oauth/callback/twitter''"
    and "getSession env = None"
    and "localStorage w ''oauth_supabase_session_twitter'' = Some saved" and "saved \<noteq> []"
    and "JSON_parse env saved = Some parsed"
    and "get_prop parsed ''access_token'' = Inr a"
    and "get_prop parsed ''refresh_token'' = Inr r"
    and "setSession env (JObj [(''access_token'', a), (''refresh_token'', r)]) = Inr res"
    and "\<not> session_error res" and "data_user res = Some u"
    and "exchangeCodeForToken env ''twitter'' ''abc'' ''xyz'' =
           Inr \<lparr>token_data.access_token = ''tok'', token_data.refresh_token = None,
                expires_in = Some 3600\<rparr>"
    and "fetch env ''https://api.twitter.com/2/users/me'' [(''Authorization'', ''Bearer tok'')] =
           Response True (Some (JObj [(''data'',
             JObj [(''name'', JStr ''Jane''), (''username'', JStr ''jane_d'')])]))"
    and "filter (\<lambda>x. user_id x = uid u \<and> platform x = ''twitter'' \<and>
                      account_handle x = Some ''@jane_d'') (social_accounts w) = []"
    and "\<not> truthy_str (sessionStorage w ''oauth_display_name_twitter'')"
    and "insert_error env = None"
    and "\<bar>clock env (ticks w) + 3600000\<bar> \<le> 8640000000000000"
  shows "social_accounts (handleOAuthCallback env w) =
           social_accounts w @
             [\<lparr>row_id = fresh_id (social_accounts w), user_id = uid u, platform = ''twitter'',
               account_name = Some ''Jane'', account_handle = Some ''@jane_d'',
               access_token = ''tok'', refresh_token = None,
               token_expires_at = Some (ISO (clock env (ticks w) + 3600000)),
               is_connected = True, updated_at = None\<rparr>] \<and>
         status (handleOAuthCallback env w) = success"
proof -
  have redirect: "read_redirect env = Inr (''abc'', ''xyz'', ''twitter'')"
    using assms(1,2) by (rule read_redirect_scenario)
  have restore: "restore_session env ''twitter'' w =
     (Inr u,
      w\<lparr>localStorage := (localStorage w)(''oauth_supabase_session_twitter'' := None),
        trace := trace w @ [GetSession,
                            SetSession (JObj [(''access_token'', a), (''refresh_token'', r)]),
                            LocalRemove ''oauth_supabase_session_twitter'']\<rparr>)"
    using restore_session_stored [of env w "''twitter''" saved parsed a r res] assms(3-11)
    by simp
  have profile: "extract_account ''twitter''
      (JObj [(''data'', JObj [(''name'', JStr ''Jane''), (''username'', JStr ''jane_d'')])]) =
      Inr \<lparr>name = JStr ''Jane'', handle = JStr ''@jane_d''\<rparr>"
    by (simp add: extract_account_def extract_twitter_def bind_sum_def)
  have url: "profile_url ''twitter'' = Some ''https://api.twitter.com/2/users/me''"
    by (simp add: profile_url_def)
  show ?thesis
    using assms(12-17) restore profile
    by (simp add: handleOAuthCallback_def callback_try_after_redirect [OF redirect]
          fetch_ok [OF url] and_then_def setMessage_def setStatus_def setTimeout_def
          call_exchangeCodeForToken_def emit_def lift_def return_def throw_def
          take_hints_def session_get_def session_remove_def
          save_account_def db_select_def db_insert_def expires_at_def read_clock_def
          toISOString_def maybeSingle_def new_row_def column_value_def or_null_def truthy_str_def
        split: option.splits)
qed

theorem twitter_scenario_witness:
  "location_search sample_env = ''?code=abc&state=xyz'' \<and>
   location_pathname sample_env = ''/oauth/callback/twitter'' \<and>
   getSession sample_env = None \<and>
   localStorage sample_world ''oauth_supabase_session_twitter'' = Some ''snapshot'' \<and>
   social_accounts sample_world = [] \<and>
   social_accounts (handleOAuthCallback sample_env sample_world) =
     [\<lparr>row_id = 1, user_id = ''u1'', platform = ''twitter'',
       account_name = Some ''Jane'', account_handle = Some ''@jane_d'',
       access_token = ''tok'', refresh_token = None,
       token_expires_at = Some (ISO 1700003600000), is_connected = True,
       updated_at = None\<rparr>] \<and>
   status (handleOAuthCallback sample_env sample_world) = success"
  using twitter_scenario
    [where env = sample_env and w = sample_world and saved = "''snapshot''"
       and parsed = sample_snapshot and a = "JStr ''sa''" and r = "JStr ''sr''"
       and res = "\<lparr>data_user = Some \<lparr>uid = ''u1''\<rparr>,
                    data_session = Some \<lparr>session_user = \<lparr>uid = ''u1''\<rparr>\<rparr>,
                    session_error = False\<rparr>"
       and u = "\<lparr>uid = ''u1''\<rparr>"]
  by (simp add: sample_env_def sample_world_def sample_snapshot_def sample_profile_def
        fresh_id_def truthy_str_def)

end
